theory Spec2Isabelle
  imports Main "HOL-Library.Word" "HOL-Library.Signed_Division"
begin

unbundle bit_operations_syntax

section \<open>The X11 driver's initialisation code (dlls/x11drv/x11drv_main.c)\<close>

text \<open>
  The file is a sequence of calls into Xlib, the registry and other Wine modules. The
  embedding threads one record, the \<open>world\<close>, through the code: it holds the file's
  own variables, the variables of other modules that the file assigns, the registry key
  of the driver, the part of the X server's state that the file reads back, and the
  chronological trace of every call that leaves the file. What the outside answers
  (the environment, the server, the allocator, \<open>wine.ini\<close>) is read from a second
  record, the \<open>environment\<close>, which the code never changes.

  \<open>ExitProcess\<close> does not return: a function that can reach it yields an \<open>outcome\<close>,
  which keeps the world at the moment of the exit.

  The \<open>TSX\<close> functions of tsx11 are the Xlib functions of the same names, called between
  \<open>wine_tsx11_lock\<close> and \<open>wine_tsx11_unlock\<close>; \<open>ENTER_GL\<close> and \<open>LEAVE_GL\<close> are these two
  calls. The embedding follows one thread through the file, for which the lock is free
  again after each such call: a call is recorded in the trace and the lock is left out.
  The symbols of conditional compilation (\<open>NO_REENTRANT_X11\<close>, \<open>HAVE_OPENGL\<close>,
  \<open>HAVE_LIBXXF86VM\<close>) are switches of the environment, and so are the two macros of
  \<open>options.h\<close> that classify the first character of an option value.
\<close>

subsection \<open>Machine types and constants of the X11 headers\<close>

type_synonym dword = "32 word"
  \<comment> \<open>\<open>int\<close>, \<open>unsigned int\<close>, \<open>DWORD\<close> and \<open>BOOL\<close>-sized values: 32 bits\<close>
type_synonym xid = nat
  \<comment> \<open>\<open>Window\<close>, \<open>Cursor\<close>, \<open>Colormap\<close>, \<open>Atom\<close>\<close>
type_synonym pointer = nat
  \<comment> \<open>a non-null address; a nullable pointer is a \<open>pointer option\<close>\<close>
type_synonym thread_id = dword

text \<open>Values of \<open>X11/X.h\<close>, \<open>X11/Xutil.h\<close> and \<open>X11/cursorfont.h\<close>.\<close>

definition XValue :: dword where "XValue = 0x0001"
definition YValue :: dword where "YValue = 0x0002"
definition WidthValue :: dword where "WidthValue = 0x0004"
definition HeightValue :: dword where "HeightValue = 0x0008"

definition USPosition :: dword where "USPosition = push_bit 0 1"
definition USSize :: dword where "USSize = push_bit 1 1"
definition PSize :: dword where "PSize = push_bit 3 1"
definition PMinSize :: dword where "PMinSize = push_bit 4 1"
definition PMaxSize :: dword where "PMaxSize = push_bit 5 1"

definition InputHint :: dword where "InputHint = push_bit 0 1"
definition StateHint :: dword where "StateHint = push_bit 1 1"
definition NormalState :: dword where "NormalState = 1"

definition KeyPressMask :: dword where "KeyPressMask = push_bit 0 1"
definition KeyReleaseMask :: dword where "KeyReleaseMask = push_bit 1 1"
definition ButtonPressMask :: dword where "ButtonPressMask = push_bit 2 1"
definition ButtonReleaseMask :: dword where "ButtonReleaseMask = push_bit 3 1"
definition EnterWindowMask :: dword where "EnterWindowMask = push_bit 4 1"
definition PointerMotionMask :: dword where "PointerMotionMask = push_bit 6 1"
definition ExposureMask :: dword where "ExposureMask = push_bit 15 1"

definition CWBackPixel :: dword where "CWBackPixel = push_bit 1 1"
definition CWEventMask :: dword where "CWEventMask = push_bit 11 1"
definition CWColormap :: dword where "CWColormap = push_bit 13 1"
definition CWCursor :: dword where "CWCursor = push_bit 14 1"

definition KBKeyClickPercent :: dword where "KBKeyClickPercent = push_bit 0 1"
definition KBBellPercent :: dword where "KBBellPercent = push_bit 1 1"
definition KBBellPitch :: dword where "KBBellPitch = push_bit 2 1"
definition KBBellDuration :: dword where "KBBellDuration = push_bit 3 1"
definition KBAutoRepeatMode :: dword where "KBAutoRepeatMode = push_bit 7 1"

definition CopyFromParent :: dword where "CopyFromParent = 0"
definition InputOutput :: dword where "InputOutput = 1"
definition DefaultBlanking :: dword where "DefaultBlanking = 2"
definition DefaultExposures :: dword where "DefaultExposures = 2"
definition XC_top_left_arrow :: dword where "XC_top_left_arrow = 132"

subsection \<open>Structures\<close>

text \<open>\<open>Options\<close> (options.h): the fields this file uses.\<close>

record options =
  opt_display :: "string option"
  opt_managed :: bool
  opt_desktopGeometry :: "string option"
  opt_synchronous :: bool

text \<open>\<open>XKeyboardState\<close>, filled by \<open>XGetKeyboardControl\<close>.\<close>

record XKeyboardState =
  ks_key_click_percent :: dword
  ks_bell_percent :: dword
  ks_bell_pitch :: dword
  ks_bell_duration :: dword
  ks_led_mask :: "64 word"
  ks_global_auto_repeat :: dword
  ks_auto_repeats :: "8 word list"

text \<open>\<open>XKeyboardControl\<close>: the fields \<open>process_detach\<close> assigns; the others stay
  uninitialised and are not selected by the value mask.\<close>

record XKeyboardControl =
  kc_key_click_percent :: dword
  kc_bell_percent :: dword
  kc_bell_pitch :: dword
  kc_bell_duration :: dword
  kc_auto_repeat_mode :: dword

text \<open>\<open>CRITICAL_SECTION\<close>: the owner is 0 while nobody holds the section.\<close>

record CRITICAL_SECTION =
  OwningThread :: thread_id
  RecursionCount :: dword

text \<open>
  Where \<open>errno\<close> and \<open>h_errno\<close> live: the two static libc variables whose addresses the
  file takes before including \<open>errno.h\<close>, or a slot that some other location function
  returns.
\<close>

datatype location = Static_errno | Static_h_errno | Slot nat

text \<open>
  A location hook (\<open>wine_errno_location\<close>, \<open>wine_h_errno_location\<close>) is a function
  pointer: either the function of this file, or a function outside it, which maps the
  calling thread to its slot.
\<close>

datatype location_fn =
    X11_errno_location
  | X11_h_errno_location
  | Other_location "thread_id \<Rightarrow> location"

text \<open>\<open>wine_tsx11_lock\<close> and \<open>wine_tsx11_unlock\<close> hold \<open>lock_tsx11\<close>, \<open>unlock_tsx11\<close> or a
  function outside the file. A null function pointer is \<open>None\<close>.\<close>

datatype lock_fn = Lock_tsx11 | Unlock_tsx11 | Other_fn nat

text \<open>The screen-saver parameters the server reports (\<open>XGetScreenSaver\<close>).\<close>

record screen_saver =
  ss_timeout :: dword
  ss_interval :: dword
  ss_prefer_blanking :: dword
  ss_allow_exposures :: dword

text \<open>A \<open>Display\<close> as the macros of Xlib read it; a \<open>Screen *\<close> is the screen's number.\<close>

record Display =
  ConnectionNumber :: int
  DefaultScreen :: nat
  RootWindow :: "nat \<Rightarrow> xid"
  DefaultVisual :: "nat \<Rightarrow> nat"
  DefaultDepthOfScreen :: "nat \<Rightarrow> dword"
  WidthOfScreen :: "nat \<Rightarrow> dword"
  HeightOfScreen :: "nat \<Rightarrow> dword"
  BlackPixel :: "nat \<Rightarrow> 64 word"
  ListDepths :: "nat \<Rightarrow> dword list"

record XVisualInfo =
  vi_visual :: nat
  vi_screen :: nat
  vi_depth :: dword

text \<open>What \<open>XParseGeometry\<close> hands back: the mask of the fields it found and the four
  values it read.\<close>

record geometry =
  geo_flags :: dword
  geo_x :: dword
  geo_y :: dword
  geo_width :: dword
  geo_height :: dword

record XSizeHints =
  sh_flags :: dword
  sh_min_width :: dword
  sh_max_width :: dword
  sh_min_height :: dword
  sh_max_height :: dword

record XWMHints =
  wh_flags :: dword
  wh_input :: bool
  wh_initial_state :: dword

record XClassHint =
  res_name :: string
  res_class :: string

record XSetWindowAttributes =
  background_pixel :: "64 word"
  event_mask :: dword
  cursor :: xid
  colormap :: "xid option"
    \<comment> \<open>\<open>None\<close>: never assigned, and then not selected by the value mask\<close>

record create_window =
  cw_parent :: xid
  cw_x :: dword
  cw_y :: dword
  cw_width :: dword
  cw_height :: dword
  cw_border_width :: dword
  cw_depth :: dword
  cw_class :: dword
  cw_visual :: "nat option"
    \<comment> \<open>\<open>None\<close> is \<open>CopyFromParent\<close>\<close>
  cw_valuemask :: dword
  cw_attributes :: XSetWindowAttributes

subsection \<open>Calls that leave the file\<close>

datatype arg = Str string | Num dword

datatype event =
    MESSAGE string "arg list"
    \<comment> \<open>the format and its arguments\<close>
  | ERR string
  | Set_value string string
  | Close_key
  | Open_display "string option"
  | Close_on_exec int
  | List_depths nat
  | Free_depth_list
  | Open_IM
  | Set_error_handler
  | Query_GLX
  | Choose_visual
  | Create_colormap xid nat
  | Parse_geometry string
  | Create_font_cursor dword
  | Create_window create_window
  | Alloc_size_hints "pointer option"
  | Alloc_WM_hints "pointer option"
  | Alloc_class_hint "pointer option"
  | String_list_to_text_property string
  | Set_WM_properties xid string XSizeHints XWMHints XClassHint
  | Intern_atom string
  | Set_WM_protocols xid xid
  | Free pointer
  | Map_window xid
  | GDI_Initialize
  | Get_keyboard_control
  | EVENT_Init
  | XF86VM_Init
  | LoadLibrary16 string
  | Change_keyboard_control dword XKeyboardControl
  | XF86VM_Cleanup
  | GDI_Finalize
  | Get_screen_saver
  | Activate_screen_saver
  | Reset_screen_saver
  | Set_screen_saver dword dword dword dword

subsection \<open>The world and its environment\<close>

record world =
  Options :: options
  WND_Driver :: bool
    \<comment> \<open>whether it points to \<open>X11DRV_WND_Driver\<close>\<close>
  wine_tsx11_lock :: "lock_fn option"
  wine_tsx11_unlock :: "lock_fn option"
  wine_errno_location :: "location_fn option"
  wine_h_errno_location :: "location_fn option"
  keyboard_state :: XKeyboardState
  old_tsx11_lock :: "lock_fn option"
  old_tsx11_unlock :: "lock_fn option"
  X11DRV_CritSection :: CRITICAL_SECTION
  display :: "Display option"
  screen :: nat
  visual :: nat
  screen_width :: dword
  screen_height :: dword
  screen_depth :: dword
  root_window :: xid
  X11DRV_server_startticks :: dword
  old_errno_location :: "location_fn option"
  old_h_errno_location :: "location_fn option"
  registry :: "string \<rightharpoonup> string"
    \<comment> \<open>the values of the driver's configuration key, by lower-case name\<close>
  server_keyboard :: XKeyboardState
  server_saver :: screen_saver
  trace :: "event list"

record environment =
  NO_REENTRANT_X11 :: bool
  HAVE_OPENGL :: bool
  HAVE_LIBXXF86VM :: bool
  IS_OPTION_TRUE :: "char \<Rightarrow> bool"
  IS_OPTION_FALSE :: "char \<Rightarrow> bool"
  argv0 :: string
  getenv_DISPLAY :: "string option"
  tv_sec :: int
  tv_usec :: int
  GetTickCount :: dword
  RegCreateKeyExA :: dword
    \<comment> \<open>the status of opening the driver's key; 0 is success\<close>
  ScreenDepth :: dword
    \<comment> \<open>\<open>PROFILE_GetWineIniInt("x11drv", "ScreenDepth", 0)\<close>\<close>
  DesktopDoubleBuffered :: bool
    \<comment> \<open>\<open>PROFILE_GetWineIniBool("x11drv", "DesktopDoubleBuffered", 0)\<close>\<close>
  XOpenDisplay :: "string option \<Rightarrow> Display option"
  XParseGeometry :: "string \<Rightarrow> geometry"
  glXQueryExtension :: bool
  glXChooseVisual :: "XVisualInfo option"
  XCreateColormap :: xid
  XCreateFontCursor :: xid
  XCreateWindow :: xid
  XAllocSizeHints :: "pointer option"
  XAllocWMHints :: "pointer option"
  XAllocClassHint :: "pointer option"
  XInternAtom :: xid
  X11DRV_GDI_Initialize :: bool

datatype outcome =
    Done world
  | ExitProcess dword world
  | Fault world
    \<comment> \<open>a null pointer was dereferenced\<close>

definition and_then :: "outcome \<Rightarrow> (world \<Rightarrow> outcome) \<Rightarrow> outcome" where
  "and_then r f = (case r of Done w \<Rightarrow> f w | ExitProcess c w \<Rightarrow> ExitProcess c w | Fault w \<Rightarrow> Fault w)"

definition emit :: "event \<Rightarrow> world \<Rightarrow> world" where
  "emit ev w = w\<lparr>trace := trace w @ [ev]\<rparr>"

definition newline :: string where
  "newline = [CHR 0x0A]"

definition quote_newline :: string where
  "quote_newline = [CHR 0x27, CHR 0x0A]"

subsection \<open>The registry\<close>

text \<open>
  The registry functions are in advapi32, not in this file. A value name is compared
  without regard to case (the file reads \<open>Desktop\<close> and writes \<open>desktop\<close>), so the
  key is a map from the lower-case name to the string stored, which ends with its
  terminating zero byte in the registry and is kept here without it.
\<close>

definition lower_char :: "char \<Rightarrow> char" where
  "lower_char c =
     (case map_of (zip ''ABCDEFGHIJKLMNOPQRSTUVWXYZ'' ''abcdefghijklmnopqrstuvwxyz'') c of
        Some l \<Rightarrow> l
      | None \<Rightarrow> c)"

definition value_key :: "string \<Rightarrow> string" where
  "value_key name = map lower_char name"

text \<open>
  Modelled from the spec: \<open>RegQueryValueExA\<close> (advapi32) is not under src/. It reads one
  entry of the persisted configuration, "a key/value namespace with string-valued
  entries", into the caller's buffer. \<open>count\<close> is the size of that buffer, which the file
  sets to \<open>sizeof(buffer)\<close> before each call. The call returns 0 and fills the buffer when
  the value exists and fits with its terminating zero; it returns an error status
  (\<open>ERROR_MORE_DATA\<close> for a value that does not fit) otherwise. \<open>Some\<close> is the buffer
  after status 0, \<open>None\<close> any other status.
\<close>

definition RegQueryValueExA :: "(string \<rightharpoonup> string) \<Rightarrow> string \<Rightarrow> nat \<Rightarrow> string option" where
  "RegQueryValueExA hkey name count =
     (case hkey (value_key name) of
        None \<Rightarrow> None
      | Some v \<Rightarrow> if length v + 1 \<le> count then Some v else None)"

text \<open>Modelled from the spec: \<open>RegSetValueExA\<close> with type \<open>REG_SZ\<close> stores the string
  under the name; the file ignores its status.\<close>

definition RegSetValueExA :: "string \<Rightarrow> string \<Rightarrow> world \<Rightarrow> world" where
  "RegSetValueExA name data w =
     emit (Set_value name data) (w\<lparr>registry := (registry w)(value_key name \<mapsto> data)\<rparr>)"

definition sizeof_buffer :: nat where
  "sizeof_buffer = 256"

text \<open>\<open>buffer[0]\<close> of a zero-terminated string.\<close>

definition first_char :: "string \<Rightarrow> char" where
  "first_char s = (case s of [] \<Rightarrow> CHR 0x00 | c # _ \<Rightarrow> c)"

subsection \<open>\<open>get_server_startup\<close>\<close>

text \<open>The sum is computed in \<open>long\<close> and stored in an \<open>unsigned int\<close>.\<close>

definition get_server_startup :: "environment \<Rightarrow> world \<Rightarrow> world" where
  "get_server_startup e w =
     w\<lparr>X11DRV_server_startticks :=
         word_of_int ((tv_sec e * 1000 + tv_usec e sdiv 1000) - uint (GetTickCount e))\<rparr>"

subsection \<open>\<open>setup_options\<close>\<close>

definition set_opt_display :: "string option \<Rightarrow> world \<Rightarrow> world" where
  "set_opt_display d w = w\<lparr>Options := (Options w)\<lparr>opt_display := d\<rparr>\<rparr>"

definition set_opt_managed :: "bool \<Rightarrow> world \<Rightarrow> world" where
  "set_opt_managed b w = w\<lparr>Options := (Options w)\<lparr>opt_managed := b\<rparr>\<rparr>"

definition set_opt_desktopGeometry :: "string option \<Rightarrow> world \<Rightarrow> world" where
  "set_opt_desktopGeometry g w = w\<lparr>Options := (Options w)\<lparr>opt_desktopGeometry := g\<rparr>\<rparr>"

definition warn_display_ignored :: "environment \<Rightarrow> string \<Rightarrow> event" where
  "warn_display_ignored e buffer =
     MESSAGE (''%s: warning: --display option ignored, using '%s'' @ quote_newline)
       [Str (argv0 e), Str buffer]"

definition warn_DISPLAY_ignored :: "environment \<Rightarrow> string \<Rightarrow> event" where
  "warn_DISPLAY_ignored e buffer =
     MESSAGE (''%s: warning: $DISPLAY variable ignored, using '%s'' @ quote_newline)
       [Str (argv0 e), Str buffer]"

definition no_display_specified :: "environment \<Rightarrow> event" where
  "no_display_specified e = MESSAGE (''%s: no display specified'' @ newline) [Str (argv0 e)]"

text \<open>The \<open>--display\<close> option (lines 147 to 172). \<open>strcmp\<close> is nonzero exactly when
  the two strings differ.\<close>

definition setup_display :: "environment \<Rightarrow> world \<Rightarrow> outcome" where
  "setup_display e w =
     (case RegQueryValueExA (registry w) ''display'' sizeof_buffer of
        Some buffer \<Rightarrow>
          Done (set_opt_display (Some buffer)
            (case opt_display (Options w) of
               Some d \<Rightarrow> if buffer \<noteq> d then emit (warn_display_ignored e buffer) w else w
             | None \<Rightarrow>
                 (case getenv_DISPLAY e of
                    Some d \<Rightarrow>
                      (let w' = set_opt_display (Some d) w
                       in if buffer \<noteq> d then emit (warn_DISPLAY_ignored e buffer) w' else w')
                  | None \<Rightarrow> w)))
      | None \<Rightarrow>
          (case opt_display (Options w) of
             Some d \<Rightarrow> Done (RegSetValueExA ''display'' d w)
           | None \<Rightarrow>
               (case getenv_DISPLAY e of
                  Some d \<Rightarrow> Done (RegSetValueExA ''display'' d (set_opt_display (Some d) w))
                | None \<Rightarrow> ExitProcess 1 (emit (no_display_specified e) w))))"

text \<open>The \<open>--managed\<close> and \<open>--desktop\<close> options (lines 174 to 196): the two values
  are read when neither option was given on the command line, then both options are
  written back.\<close>

definition read_managed :: "environment \<Rightarrow> world \<Rightarrow> world" where
  "read_managed e w =
     (case RegQueryValueExA (registry w) ''managed'' sizeof_buffer of
        Some buffer \<Rightarrow> set_opt_managed (IS_OPTION_TRUE e (first_char buffer)) w
      | None \<Rightarrow> w)"

definition read_desktop :: "environment \<Rightarrow> world \<Rightarrow> world" where
  "read_desktop e w =
     (case RegQueryValueExA (registry w) ''Desktop'' sizeof_buffer of
        Some buffer \<Rightarrow>
          if \<not> IS_OPTION_FALSE e (first_char buffer)
          then set_opt_desktopGeometry (Some buffer) w else w
      | None \<Rightarrow> w)"

definition write_managed :: "world \<Rightarrow> world" where
  "write_managed w = (if opt_managed (Options w) then RegSetValueExA ''managed'' ''y'' w else w)"

definition write_desktop :: "world \<Rightarrow> world" where
  "write_desktop w =
     (case opt_desktopGeometry (Options w) of
        Some g \<Rightarrow> RegSetValueExA ''desktop'' g w
      | None \<Rightarrow> w)"

definition setup_managed_desktop :: "environment \<Rightarrow> world \<Rightarrow> world" where
  "setup_managed_desktop e w =
     emit Close_key (write_desktop (write_managed
       (if \<not> opt_managed (Options w) \<and> opt_desktopGeometry (Options w) = None
        then read_desktop e (read_managed e w)
        else w)))"

definition cannot_create_key :: event where
  "cannot_create_key = ERR (''Cannot create config registry key'' @ newline)"

definition setup_options :: "environment \<Rightarrow> world \<Rightarrow> outcome" where
  "setup_options e w =
     (if RegCreateKeyExA e \<noteq> 0
      then ExitProcess 1 (emit cannot_create_key w)
      else and_then (setup_display e w) (\<lambda>w'. Done (setup_managed_desktop e w')))"

subsection \<open>The location hooks (\<open>NO_REENTRANT_X11\<close>)\<close>

text \<open>
  Calling a location hook from thread \<open>tid\<close> (\<open>GetCurrentThreadId()\<close>). The functions of
  this file call the saved old hook, which is again a function pointer, so the call may
  never return (\<open>None\<close>) or go through a null pointer (\<open>Null_call\<close>).
\<close>

datatype returned = Location location | Null_call

partial_function (option) call_location ::
    "world \<Rightarrow> location_fn option \<Rightarrow> thread_id \<Rightarrow> returned option" where
  "call_location w fn tid =
     (case fn of
        None \<Rightarrow> Some Null_call
      | Some (Other_location f) \<Rightarrow> Some (Location (f tid))
      | Some X11_errno_location \<Rightarrow>
          if OwningThread (X11DRV_CritSection w) = tid then Some (Location Static_errno)
          else call_location w (old_errno_location w) tid
      | Some X11_h_errno_location \<Rightarrow>
          if OwningThread (X11DRV_CritSection w) = tid then Some (Location Static_h_errno)
          else call_location w (old_h_errno_location w) tid)"

definition x11_errno_location :: "world \<Rightarrow> thread_id \<Rightarrow> returned option" where
  "x11_errno_location w tid = call_location w (Some X11_errno_location) tid"

definition x11_h_errno_location :: "world \<Rightarrow> thread_id \<Rightarrow> returned option" where
  "x11_h_errno_location w tid = call_location w (Some X11_h_errno_location) tid"

subsection \<open>\<open>create_desktop\<close>\<close>

text \<open>
  Modelled from the spec: \<open>TSXParseGeometry\<close> (tsx11, not under src/) is
  \<open>XParseGeometry\<close> inside the lock. It parses the string "into explicit/default x, y,
  width, height", "tracking which fields were user-specified": a variable is assigned
  only when the bit of its field is set in the mask returned, and keeps the value it
  had otherwise. The result holds the mask and the four variables after the call.
\<close>

definition TSXParseGeometry ::
    "environment \<Rightarrow> string \<Rightarrow> dword \<Rightarrow> dword \<Rightarrow> dword \<Rightarrow> dword \<Rightarrow> geometry" where
  "TSXParseGeometry e s x y width height =
     (let g = XParseGeometry e s; flags = geo_flags g
      in \<lparr>geo_flags = flags,
          geo_x = (if flags AND XValue \<noteq> 0 then geo_x g else x),
          geo_y = (if flags AND YValue \<noteq> 0 then geo_y g else y),
          geo_width = (if flags AND WidthValue \<noteq> 0 then geo_width g else width),
          geo_height = (if flags AND HeightValue \<noteq> 0 then geo_height g else height)\<rparr>)"

text \<open>The \<open>HAVE_OPENGL\<close> block (lines 220 to 238): \<open>vi\<close> and \<open>win_attr.colormap\<close> after
  it. \<open>vi->screen\<close> is read without a test of \<open>vi\<close>.\<close>

datatype chosen = Chosen "(XVisualInfo \<times> xid) option" world | Null_visual world

definition desktop_visual :: "environment \<Rightarrow> Display \<Rightarrow> world \<Rightarrow> chosen" where
  "desktop_visual e d w =
     (if HAVE_OPENGL e then
        (let w1 = emit Query_GLX w
         in if glXQueryExtension e \<and> DesktopDoubleBuffered e then
              (let w2 = emit Choose_visual w1
               in case glXChooseVisual e of
                    None \<Rightarrow> Null_visual w2
                  | Some vi \<Rightarrow>
                      Chosen (Some (vi, XCreateColormap e))
                        (emit (Create_colormap (RootWindow d (vi_screen vi)) (vi_visual vi)) w2))
            else Chosen None w1)
      else Chosen None w)"

definition desktop_event_mask :: dword where
  "desktop_event_mask =
     ExposureMask OR KeyPressMask OR KeyReleaseMask OR PointerMotionMask OR ButtonPressMask
       OR ButtonReleaseMask OR EnterWindowMask"

text \<open>The arguments of \<open>TSXCreateWindow\<close> (lines 245 to 263).\<close>

definition desktop_window ::
    "environment \<Rightarrow> Display \<Rightarrow> geometry \<Rightarrow> (XVisualInfo \<times> xid) option \<Rightarrow> create_window" where
  "desktop_window e d g vi =
     \<lparr>cw_parent = (case vi of None \<Rightarrow> RootWindow d (DefaultScreen d)
                   | Some (v, c) \<Rightarrow> RootWindow d (vi_screen v)),
      cw_x = geo_x g, cw_y = geo_y g, cw_width = geo_width g, cw_height = geo_height g,
      cw_border_width = 0,
      cw_depth = (case vi of None \<Rightarrow> CopyFromParent | Some (v, c) \<Rightarrow> vi_depth v),
      cw_class = InputOutput,
      cw_visual = (case vi of None \<Rightarrow> None | Some (v, c) \<Rightarrow> Some (vi_visual v)),
      cw_valuemask = CWBackPixel OR CWEventMask OR CWCursor
                       OR (case vi of None \<Rightarrow> 0 | Some (v, c) \<Rightarrow> CWColormap),
      cw_attributes =
        \<lparr>background_pixel = BlackPixel d 0, event_mask = desktop_event_mask,
         cursor = XCreateFontCursor e,
         colormap = (case vi of None \<Rightarrow> None | Some (v, c) \<Rightarrow> Some c)\<rparr>\<rparr>"

text \<open>The size hints (lines 274 to 279).\<close>

definition desktop_size_hints :: "geometry \<Rightarrow> XSizeHints" where
  "desktop_size_hints g =
     (let f0 = PMinSize OR PMaxSize;
          f1 = (if geo_flags g AND (XValue OR YValue) \<noteq> 0 then f0 OR USPosition else f0);
          f2 = (if geo_flags g AND (WidthValue OR HeightValue) \<noteq> 0 then f1 OR USSize
                else f1 OR PSize)
      in \<lparr>sh_flags = f2,
          sh_min_width = geo_width g, sh_max_width = geo_width g,
          sh_min_height = geo_height g, sh_max_height = geo_height g\<rparr>)"

definition desktop_wm_hints :: XWMHints where
  "desktop_wm_hints = \<lparr>wh_flags = InputHint OR StateHint, wh_input = True, wh_initial_state = NormalState\<rparr>"

definition desktop_class_hints :: "environment \<Rightarrow> XClassHint" where
  "desktop_class_hints e = \<lparr>res_name = argv0 e, res_class = ''Wine''\<rparr>"

definition desktop_name :: string where
  "desktop_name = ''Wine desktop''"

text \<open>Lines 240 to 263: parse, record the screen size, create the window.\<close>

definition desktop_create ::
    "environment \<Rightarrow> Display \<Rightarrow> string \<Rightarrow> (XVisualInfo \<times> xid) option \<Rightarrow> world \<Rightarrow> geometry \<times> world" where
  "desktop_create e d geom vi w =
     (let g = TSXParseGeometry e geom 0 0 640 480;
          w1 = (emit (Parse_geometry geom) w)\<lparr>screen_width := geo_width g, screen_height := geo_height g\<rparr>;
          w2 = emit (Create_font_cursor XC_top_left_arrow) w1;
          w3 = (case vi of
                  None \<Rightarrow> w2
                | Some (v, c) \<Rightarrow> w2\<lparr>visual := vi_visual v, screen := vi_screen v, screen_depth := vi_depth v\<rparr>);
          w4 = (emit (Create_window (desktop_window e d g vi)) w3)\<lparr>root_window := XCreateWindow e\<rparr>
      in (g, w4))"

text \<open>Lines 274 to 297, with the three hint structures allocated: they are filled,
  handed to the window manager and freed, then the window is mapped. \<open>root_window\<close> is
  not assigned in between.\<close>

definition set_wm_properties ::
    "environment \<Rightarrow> geometry \<Rightarrow> pointer \<Rightarrow> pointer \<Rightarrow> pointer \<Rightarrow> world \<Rightarrow> world" where
  "set_wm_properties e g size_hints wm_hints class_hints w =
     emit (Map_window (root_window w))
      (emit (Free class_hints)
      (emit (Free wm_hints)
      (emit (Free size_hints)
      (emit (Set_WM_protocols (root_window w) (XInternAtom e))
      (emit (Intern_atom ''WM_DELETE_WINDOW'')
      (emit (Set_WM_properties (root_window w) desktop_name
               (desktop_size_hints g) desktop_wm_hints (desktop_class_hints e))
      (emit (String_list_to_text_property desktop_name) w)))))))"

definition not_enough_memory :: event where
  "not_enough_memory = MESSAGE (''Not enough memory for window manager hints.'' @ newline) []"

text \<open>Lines 265 to 273: the three allocations, all made before the test.\<close>

definition desktop_properties :: "environment \<Rightarrow> geometry \<Rightarrow> world \<Rightarrow> outcome" where
  "desktop_properties e g w =
     (let w1 = emit (Alloc_size_hints (XAllocSizeHints e)) w;
          w2 = emit (Alloc_WM_hints (XAllocWMHints e)) w1;
          w3 = emit (Alloc_class_hint (XAllocClassHint e)) w2
      in case (XAllocSizeHints e, XAllocWMHints e, XAllocClassHint e) of
           (Some size_hints, Some wm_hints, Some class_hints) \<Rightarrow>
             Done (set_wm_properties e g size_hints wm_hints class_hints w3)
         | _ \<Rightarrow> ExitProcess 1 (emit not_enough_memory w3))"

text \<open>
  \<open>create_desktop\<close> with a null \<open>display\<close>. The first place where the file itself reads
  through the pointer is \<open>DefaultScreen(display)\<close> in the argument of \<open>glXChooseVisual\<close>,
  when the \<open>HAVE_OPENGL\<close> block gets that far, and \<open>BlackPixel(display, 0)\<close> otherwise:
  by then the geometry is parsed and the screen size is stored.
\<close>

definition desktop_without_display :: "environment \<Rightarrow> string \<Rightarrow> world \<Rightarrow> outcome" where
  "desktop_without_display e geom w =
     (let w1 = (if HAVE_OPENGL e then emit Query_GLX w else w)
      in if HAVE_OPENGL e \<and> glXQueryExtension e \<and> DesktopDoubleBuffered e then Fault w1
         else
           (let g = TSXParseGeometry e geom 0 0 640 480
            in Fault ((emit (Parse_geometry geom) w1)
                        \<lparr>screen_width := geo_width g, screen_height := geo_height g\<rparr>)))"

definition create_desktop :: "environment \<Rightarrow> string \<Rightarrow> world \<Rightarrow> outcome" where
  "create_desktop e geom w =
     (case display w of
        None \<Rightarrow> desktop_without_display e geom w
      | Some d \<Rightarrow>
          (case desktop_visual e d w of
             Null_visual w' \<Rightarrow> Fault w'
           | Chosen vi w' \<Rightarrow>
               (case desktop_create e d geom vi w' of
                  (g, w'') \<Rightarrow> desktop_properties e g w'')))"

subsection \<open>\<open>process_attach\<close>\<close>

text \<open>Lines 311 to 321: the hooks of tsx11 are exchanged for the functions of this file.\<close>

definition install_hooks :: "environment \<Rightarrow> world \<Rightarrow> world" where
  "install_hooks e w =
     (let w1 = (if NO_REENTRANT_X11 e then
                  w\<lparr>old_errno_location := wine_errno_location w,
                    wine_errno_location := Some X11_errno_location,
                    old_h_errno_location := wine_h_errno_location w,
                    wine_h_errno_location := Some X11_h_errno_location\<rparr>
                else w)
      in w1\<lparr>old_tsx11_lock := wine_tsx11_lock w1,
            old_tsx11_unlock := wine_tsx11_unlock w1,
            wine_tsx11_lock := Some Lock_tsx11,
            wine_tsx11_unlock := Some Unlock_tsx11\<rparr>)"

definition cannot_open_display :: "environment \<Rightarrow> string option \<Rightarrow> event" where
  "cannot_open_display e name =
     MESSAGE (''%s: Can't open display: %s'' @ newline)
       [Str (argv0 e), Str (case name of Some n \<Rightarrow> n | None \<Rightarrow> ''(null)'')]"

text \<open>Lines 323 to 333.\<close>

definition open_display :: "environment \<Rightarrow> world \<Rightarrow> outcome" where
  "open_display e w =
     (let name = opt_display (Options w); w1 = emit (Open_display name) w
      in case XOpenDisplay e name of
           None \<Rightarrow> ExitProcess 1 (emit (cannot_open_display e name) (w1\<lparr>display := None\<rparr>))
         | Some d \<Rightarrow>
             Done ((emit (Close_on_exec (ConnectionNumber d)) (w1\<lparr>display := Some d\<rparr>))
                     \<lparr>screen := DefaultScreen d,
                      visual := DefaultVisual d (DefaultScreen d),
                      root_window := RootWindow d (DefaultScreen d)\<rparr>))"

text \<open>The loop of lines 342 and 343: the value of \<open>i\<close> when it ends, from \<open>i\<close> and the
  rest of the list. The list holds \<open>int\<close>s and the depth is an \<open>unsigned int\<close>: they
  are compared as 32-bit patterns.\<close>

fun depth_search :: "dword list \<Rightarrow> dword \<Rightarrow> nat \<Rightarrow> nat" where
  "depth_search [] depth i = i"
| "depth_search (x # xs) depth i = (if x = depth then i else depth_search xs depth (Suc i))"

definition depth_not_supported :: "environment \<Rightarrow> dword \<Rightarrow> event" where
  "depth_not_supported e depth =
     MESSAGE (''%s: Depth %d not supported on this screen.'' @ newline) [Str (argv0 e), Num depth]"

text \<open>Lines 335 to 351.\<close>

definition init_screen_depth :: "environment \<Rightarrow> Display \<Rightarrow> world \<Rightarrow> outcome" where
  "init_screen_depth e d w =
     (let w1 = w\<lparr>screen_depth := ScreenDepth e\<rparr>
      in if screen_depth w1 \<noteq> 0 then
           (let depth_list = ListDepths d (DefaultScreen d);
                depth_count = length depth_list;
                w2 = emit (List_depths (DefaultScreen d)) w1;
                i = depth_search depth_list (screen_depth w2) 0;
                w3 = emit Free_depth_list w2
            in if i \<ge> depth_count
               then ExitProcess 1 (emit (depth_not_supported e (screen_depth w3)) w3)
               else Done w3)
         else Done (w1\<lparr>screen_depth := DefaultDepthOfScreen d (screen w1)\<rparr>))"

text \<open>Lines 353 to 364.\<close>

definition init_screen_size :: "Display \<Rightarrow> world \<Rightarrow> world" where
  "init_screen_size d w =
     (let w1 = emit Open_IM w;
          w2 = (if opt_synchronous (Options w1) then emit Set_error_handler w1 else w1)
      in w2\<lparr>screen_width := WidthOfScreen d (screen w2),
            screen_height := HeightOfScreen d (screen w2)\<rparr>)"

text \<open>Lines 366 to 370.\<close>

definition init_desktop :: "environment \<Rightarrow> world \<Rightarrow> outcome" where
  "init_desktop e w =
     (case opt_desktopGeometry (Options w) of
        Some geom \<Rightarrow> create_desktop e geom (set_opt_managed False w)
      | None \<Rightarrow> Done w)"

text \<open>Lines 372 to 377.\<close>

definition init_gdi :: "environment \<Rightarrow> world \<Rightarrow> outcome" where
  "init_gdi e w =
     (let w1 = emit GDI_Initialize w
      in if \<not> X11DRV_GDI_Initialize e
         then ExitProcess 1
                (emit (MESSAGE (''%s: X11DRV Couldn't Initialize GDI.'' @ newline) [Str (argv0 e)]) w1)
         else Done w1)"

text \<open>Lines 380 to 392: the keyboard settings the server reports are saved.\<close>

definition init_rest :: "environment \<Rightarrow> world \<Rightarrow> world" where
  "init_rest e w =
     (let w1 = (emit Get_keyboard_control w)\<lparr>keyboard_state := server_keyboard w\<rparr>;
          w2 = emit EVENT_Init w1;
          w3 = (if HAVE_LIBXXF86VM e then emit XF86VM_Init w2 else w2)
      in emit (LoadLibrary16 ''display'') w3)"

text \<open>Lines 306 to 309: option resolution, as \<open>process_attach\<close> runs it.\<close>

definition attach_options :: "environment \<Rightarrow> world \<Rightarrow> outcome" where
  "attach_options e w = setup_options e (get_server_startup e (w\<lparr>WND_Driver := True\<rparr>))"

text \<open>Lines 306 to 333: up to the open display.\<close>

definition attach_display :: "environment \<Rightarrow> world \<Rightarrow> outcome" where
  "attach_display e w = and_then (attach_options e w) (\<lambda>w. open_display e (install_hooks e w))"

definition process_attach :: "environment \<Rightarrow> world \<Rightarrow> outcome" where
  "process_attach e w =
     and_then (attach_display e w) (\<lambda>w.
       case display w of
         None \<Rightarrow> Fault w
       | Some d \<Rightarrow>
           and_then (init_screen_depth e d w) (\<lambda>w.
           and_then (init_desktop e (init_screen_size d w)) (\<lambda>w.
           and_then (init_gdi e w) (\<lambda>w.
           Done (init_rest e w)))))"

subsection \<open>\<open>process_detach\<close>\<close>

definition keyboard_value :: "world \<Rightarrow> XKeyboardControl" where
  "keyboard_value w =
     \<lparr>kc_key_click_percent = ks_key_click_percent (keyboard_state w),
      kc_bell_percent = ks_bell_percent (keyboard_state w),
      kc_bell_pitch = ks_bell_pitch (keyboard_state w),
      kc_bell_duration = ks_bell_duration (keyboard_state w),
      kc_auto_repeat_mode = ks_global_auto_repeat (keyboard_state w)\<rparr>"

definition keyboard_mask :: dword where
  "keyboard_mask =
     KBKeyClickPercent OR KBBellPercent OR KBBellPitch OR KBBellDuration OR KBAutoRepeatMode"

definition process_detach :: "environment \<Rightarrow> world \<Rightarrow> world" where
  "process_detach e w =
     (let w1 = emit (Change_keyboard_control keyboard_mask (keyboard_value w)) w;
          w2 = (if HAVE_LIBXXF86VM e then emit XF86VM_Cleanup w1 else w1);
          w3 = emit GDI_Finalize w2;
          w4 = w3\<lparr>wine_tsx11_lock := old_tsx11_lock w3,
                 wine_tsx11_unlock := old_tsx11_unlock w3\<rparr>
      in if NO_REENTRANT_X11 e then
           w4\<lparr>wine_errno_location := old_errno_location w4,
              wine_h_errno_location := old_h_errno_location w4\<rparr>
         else w4)"

subsection \<open>\<open>X11DRV_Init\<close>\<close>

definition DLL_PROCESS_DETACH :: dword where "DLL_PROCESS_DETACH = 0"
definition DLL_PROCESS_ATTACH :: dword where "DLL_PROCESS_ATTACH = 1"

definition X11DRV_Init :: "environment \<Rightarrow> dword \<Rightarrow> world \<Rightarrow> outcome" where
  "X11DRV_Init e reason w =
     (if reason = DLL_PROCESS_ATTACH then process_attach e w
      else if reason = DLL_PROCESS_DETACH then Done (process_detach e w)
      else Done w)"

subsection \<open>The screen saver\<close>

text \<open>
  \<open>server_saver\<close> is what the server answers to \<open>XGetScreenSaver\<close> at the time of the
  call. The requests of this file are recorded in the trace; what the server makes of
  them is the server's: forcing the saver on or off (\<open>XActivateScreenSaver\<close>,
  \<open>XResetScreenSaver\<close>) is no change of its parameters.
\<close>

definition X11DRV_GetScreenSaveActive :: "world \<Rightarrow> bool \<times> world" where
  "X11DRV_GetScreenSaveActive w =
     (let timeout = ss_timeout (server_saver w) in (timeout \<noteq> 0, emit Get_screen_saver w))"

definition X11DRV_SetScreenSaveActive :: "bool \<Rightarrow> world \<Rightarrow> world" where
  "X11DRV_SetScreenSaveActive bActivate w =
     (if bActivate then emit Activate_screen_saver w else emit Reset_screen_saver w)"

definition X11DRV_GetScreenSaveTimeout :: "world \<Rightarrow> dword \<times> world" where
  "X11DRV_GetScreenSaveTimeout w =
     (let timeout = ss_timeout (server_saver w) in (timeout, emit Get_screen_saver w))"

text \<open>\<open>nTimeout\<close> is an \<open>int\<close>: the comparison is signed.\<close>

definition X11DRV_SetScreenSaveTimeout :: "dword \<Rightarrow> world \<Rightarrow> world" where
  "X11DRV_SetScreenSaveTimeout nTimeout w =
     (let nTimeout' = (if 32767 <s nTimeout then 32767 else nTimeout)
      in emit (Set_screen_saver nTimeout' 60 DefaultBlanking DefaultExposures) w)"

definition X11DRV_IsSingleWindow :: "world \<Rightarrow> bool option" where
  "X11DRV_IsSingleWindow w =
     (case display w of
        None \<Rightarrow> None
      | Some d \<Rightarrow> Some (root_window w \<noteq> RootWindow d (DefaultScreen d)))"

subsection \<open>Reading outcomes and traces\<close>

definition final_world :: "outcome \<Rightarrow> world" where
  "final_world r = (case r of Done w \<Rightarrow> w | ExitProcess c w \<Rightarrow> w | Fault w \<Rightarrow> w)"

text \<open>The calls made between two worlds of one run.\<close>

definition events_since :: "world \<Rightarrow> world \<Rightarrow> event list" where
  "events_since w w' = drop (length (trace w)) (trace w')"

definition is_diagnostic :: "event \<Rightarrow> bool" where
  "is_diagnostic ev = (case ev of MESSAGE f a \<Rightarrow> True | ERR s \<Rightarrow> True | _ \<Rightarrow> False)"

definition is_MESSAGE :: "event \<Rightarrow> bool" where
  "is_MESSAGE ev = (case ev of MESSAGE f a \<Rightarrow> True | _ \<Rightarrow> False)"

definition is_Create_window :: "event \<Rightarrow> bool" where
  "is_Create_window ev = (case ev of Create_window c \<Rightarrow> True | _ \<Rightarrow> False)"

definition is_Open_display :: "event \<Rightarrow> bool" where
  "is_Open_display ev = (case ev of Open_display n \<Rightarrow> True | _ \<Rightarrow> False)"

definition is_Free :: "event \<Rightarrow> bool" where
  "is_Free ev = (case ev of Free p \<Rightarrow> True | _ \<Rightarrow> False)"

text \<open>The four location hooks, and with them the two keyboard records: what most of
  the file leaves alone.\<close>

definition hooks ::
    "world \<Rightarrow> location_fn option \<times> location_fn option \<times> location_fn option \<times> location_fn option" where
  "hooks w =
     (wine_errno_location w, wine_h_errno_location w, old_errno_location w, old_h_errno_location w)"

definition frame :: "world \<Rightarrow>
    (location_fn option \<times> location_fn option \<times> location_fn option \<times> location_fn option)
      \<times> XKeyboardState \<times> XKeyboardState" where
  "frame w = (hooks w, server_keyboard w, keyboard_state w)"

text \<open>A part of the attachment that started in \<open>w\<close> and came out as \<open>r\<close> has created no
  window, has not faulted, and if it left the process, then with status 1 and a
  diagnostic as its last call.\<close>

definition no_window_yet :: "world \<Rightarrow> outcome \<Rightarrow> bool" where
  "no_window_yet w r \<longleftrightarrow>
     (\<exists>evs. trace (final_world r) = trace w @ evs \<and>
        (\<forall>ev \<in> set evs. \<not> is_Create_window ev) \<and>
        (case r of
           Done w' \<Rightarrow> True
         | ExitProcess c w' \<Rightarrow> c = 1 \<and> evs \<noteq> [] \<and> is_diagnostic (last evs)
         | Fault w' \<Rightarrow> False))"

text \<open>A change of the keyboard settings in the server, made by anyone while the driver
  is loaded: the file's variables are not touched.\<close>

definition change_keyboard :: "(XKeyboardState \<Rightarrow> XKeyboardState) \<Rightarrow> world \<Rightarrow> world" where
  "change_keyboard f w = w\<lparr>server_keyboard := f (server_keyboard w)\<rparr>"

subsection \<open>A concrete machine\<close>

definition example_display :: Display where
  "example_display =
     \<lparr>ConnectionNumber = 3, DefaultScreen = 0, RootWindow = (\<lambda>n. 42), DefaultVisual = (\<lambda>n. 33),
      DefaultDepthOfScreen = (\<lambda>n. 24), WidthOfScreen = (\<lambda>n. 1024), HeightOfScreen = (\<lambda>n. 768),
      BlackPixel = (\<lambda>n. 0), ListDepths = (\<lambda>n. [1, 8, 16, 24])\<rparr>"

definition example_keyboard :: XKeyboardState where
  "example_keyboard =
     \<lparr>ks_key_click_percent = 50, ks_bell_percent = 40, ks_bell_pitch = 400,
      ks_bell_duration = 100, ks_led_mask = 2, ks_global_auto_repeat = 1,
      ks_auto_repeats = replicate 32 255\<rparr>"

text \<open>\<open>800x600+10+20\<close> is read as all four fields; any other string as none.\<close>

definition example_parse :: "string \<Rightarrow> geometry" where
  "example_parse s =
     (if s = ''800x600+10+20''
      then \<lparr>geo_flags = XValue OR YValue OR WidthValue OR HeightValue,
            geo_x = 10, geo_y = 20, geo_width = 800, geo_height = 600\<rparr>
      else \<lparr>geo_flags = 0, geo_x = 0, geo_y = 0, geo_width = 0, geo_height = 0\<rparr>)"

definition example_environment :: environment where
  "example_environment =
     \<lparr>NO_REENTRANT_X11 = True, HAVE_OPENGL = False, HAVE_LIBXXF86VM = True,
      IS_OPTION_TRUE = (\<lambda>c. c \<in> set ''yYtT1''), IS_OPTION_FALSE = (\<lambda>c. c \<in> set ''nNfF0''),
      argv0 = ''wine'', getenv_DISPLAY = Some '':0'',
      tv_sec = 1000000, tv_usec = 500000, GetTickCount = 7,
      RegCreateKeyExA = 0, ScreenDepth = 0, DesktopDoubleBuffered = False,
      XOpenDisplay = (\<lambda>name. Some example_display), XParseGeometry = example_parse,
      glXQueryExtension = False, glXChooseVisual = None,
      XCreateColormap = 7, XCreateFontCursor = 8, XCreateWindow = 99,
      XAllocSizeHints = Some 1000, XAllocWMHints = Some 2000, XAllocClassHint = Some 3000,
      XInternAtom = 11, X11DRV_GDI_Initialize = True\<rparr>"

definition example_world :: world where
  "example_world =
     \<lparr>Options = \<lparr>opt_display = None, opt_managed = False, opt_desktopGeometry = None,
                 opt_synchronous = False\<rparr>,
      WND_Driver = False,
      wine_tsx11_lock = Some (Other_fn 1), wine_tsx11_unlock = Some (Other_fn 2),
      wine_errno_location = Some (Other_location (\<lambda>tid. Slot (unat tid))),
      wine_h_errno_location = Some (Other_location (\<lambda>tid. Slot (1000 + unat tid))),
      keyboard_state =
        \<lparr>ks_key_click_percent = 0, ks_bell_percent = 0, ks_bell_pitch = 0, ks_bell_duration = 0,
         ks_led_mask = 0, ks_global_auto_repeat = 0, ks_auto_repeats = []\<rparr>,
      old_tsx11_lock = None, old_tsx11_unlock = None,
      X11DRV_CritSection = \<lparr>OwningThread = 0, RecursionCount = 0\<rparr>,
      display = None, screen = 0, visual = 0, screen_width = 0, screen_height = 0,
      screen_depth = 0, root_window = 0, X11DRV_server_startticks = 0,
      old_errno_location = None, old_h_errno_location = None,
      registry = Map.empty,
      server_keyboard = example_keyboard,
      server_saver = \<lparr>ss_timeout = 600, ss_interval = 600, ss_prefer_blanking = 1,
                       ss_allow_exposures = 1\<rparr>,
      trace = []\<rparr>"


subsection \<open>Definitions used in the statements\<close>

text \<open>What the second half of \<open>setup_options\<close> adds to the trace, from the options it
  ends with.\<close>

definition managed_desktop_events :: "world \<Rightarrow> event list" where
  "managed_desktop_events w =
     (if opt_managed (Options w) then [Set_value ''managed'' ''y''] else []) @
     (case opt_desktopGeometry (Options w) of Some g \<Rightarrow> [Set_value ''desktop'' g] | None \<Rightarrow> []) @
     [Close_key]"

text \<open>The diagnostic of an option resolution that finds no display.\<close>

definition fatal_no_display :: "environment \<Rightarrow> event" where
  "fatal_no_display e = (if RegCreateKeyExA e \<noteq> 0 then cannot_create_key else no_display_specified e)"

text \<open>The concrete machine with the display \<open>A\<close> in the registry and \<open>--display B\<close> on
  the command line.\<close>

definition conflict_world :: "string \<Rightarrow> string \<Rightarrow> world" where
  "conflict_world A B =
     example_world\<lparr>registry := [''display'' \<mapsto> A],
                   Options := (Options example_world)\<lparr>opt_display := Some B\<rparr>\<rparr>"

definition long_address :: string where
  "long_address = replicate 256 (CHR ''a'')"

text \<open>The concrete machine after a successful \<open>process_attach\<close>.\<close>

definition attached_world :: world where
  "attached_world = final_world (process_attach example_environment example_world)"


text \<open>The concrete environment with \<open>ScreenDepth = 15\<close>, a depth its screen does not have.\<close>

definition deep_environment :: environment where
  "deep_environment = example_environment\<lparr>ScreenDepth := 15\<rparr>"

text \<open>The concrete machine with its display open, as \<open>create_desktop\<close> finds it.\<close>

definition open_world :: world where
  "open_world = example_world\<lparr>display := Some example_display\<rparr>"

text \<open>The concrete environment in which \<open>XAllocWMHints\<close> returns a null pointer.\<close>

definition starved_environment :: environment where
  "starved_environment = example_environment\<lparr>XAllocWMHints := None\<rparr>"

text \<open>The concrete machine with a screen-saver timeout of 0.\<close>

definition idle_world :: world where
  "idle_world = example_world\<lparr>server_saver := (server_saver example_world)\<lparr>ss_timeout := 0\<rparr>\<rparr>"

text \<open>The calls of lines 240 to 268 of \<open>create_desktop\<close>, and those of lines 287 to 297.\<close>

definition creation_events :: "environment \<Rightarrow> Display \<Rightarrow> string \<Rightarrow> (XVisualInfo \<times> xid) option \<Rightarrow> event list" where
  "creation_events e d geom vi =
     [Parse_geometry geom, Create_font_cursor XC_top_left_arrow,
      Create_window (desktop_window e d (TSXParseGeometry e geom 0 0 640 480) vi),
      Alloc_size_hints (XAllocSizeHints e), Alloc_WM_hints (XAllocWMHints e),
      Alloc_class_hint (XAllocClassHint e)]"

definition property_events :: "environment \<Rightarrow> string \<Rightarrow> pointer \<Rightarrow> pointer \<Rightarrow> pointer \<Rightarrow> event list" where
  "property_events e geom p1 p2 p3 =
     [String_list_to_text_property desktop_name,
      Set_WM_properties (XCreateWindow e) desktop_name
        (desktop_size_hints (TSXParseGeometry e geom 0 0 640 480)) desktop_wm_hints
        (desktop_class_hints e),
      Intern_atom ''WM_DELETE_WINDOW'', Set_WM_protocols (XCreateWindow e) (XInternAtom e),
      Free p1, Free p2, Free p3, Map_window (XCreateWindow e)]"

section \<open>Lemmas\<close>

lemmas x11_constants =
  XValue_def YValue_def WidthValue_def HeightValue_def
  USPosition_def USSize_def PSize_def PMinSize_def PMaxSize_def
  InputHint_def StateHint_def NormalState_def
  KeyPressMask_def KeyReleaseMask_def ButtonPressMask_def ButtonReleaseMask_def
  EnterWindowMask_def PointerMotionMask_def ExposureMask_def
  CWBackPixel_def CWEventMask_def CWColormap_def CWCursor_def
  KBKeyClickPercent_def KBBellPercent_def KBBellPitch_def KBBellDuration_def
  KBAutoRepeatMode_def CopyFromParent_def InputOutput_def
  DefaultBlanking_def DefaultExposures_def XC_top_left_arrow_def


subsection \<open>What the elementary steps change\<close>

lemma emit_fields [simp]:
  "trace (emit ev w) = trace w @ [ev]"
  "Options (emit ev w) = Options w"
  "registry (emit ev w) = registry w"
  "display (emit ev w) = display w"
  "root_window (emit ev w) = root_window w"
  "screen_width (emit ev w) = screen_width w"
  "screen_height (emit ev w) = screen_height w"
  "server_keyboard (emit ev w) = server_keyboard w"
  "server_saver (emit ev w) = server_saver w"
  "frame (emit ev w) = frame w"
  by (simp_all add: emit_def frame_def hooks_def)

lemma set_opt_display_fields [simp]:
  "trace (set_opt_display d w) = trace w"
  "Options (set_opt_display d w) = (Options w)\<lparr>opt_display := d\<rparr>"
  "registry (set_opt_display d w) = registry w"
  "frame (set_opt_display d w) = frame w"
  by (simp_all add: set_opt_display_def frame_def hooks_def)

lemma set_opt_managed_fields [simp]:
  "trace (set_opt_managed b w) = trace w"
  "Options (set_opt_managed b w) = (Options w)\<lparr>opt_managed := b\<rparr>"
  "registry (set_opt_managed b w) = registry w"
  "display (set_opt_managed b w) = display w"
  "frame (set_opt_managed b w) = frame w"
  by (simp_all add: set_opt_managed_def frame_def hooks_def)

lemma set_opt_desktopGeometry_fields [simp]:
  "trace (set_opt_desktopGeometry g w) = trace w"
  "Options (set_opt_desktopGeometry g w) = (Options w)\<lparr>opt_desktopGeometry := g\<rparr>"
  "registry (set_opt_desktopGeometry g w) = registry w"
  "frame (set_opt_desktopGeometry g w) = frame w"
  by (simp_all add: set_opt_desktopGeometry_def frame_def hooks_def)

lemma RegSetValueExA_fields [simp]:
  "trace (RegSetValueExA name data w) = trace w @ [Set_value name data]"
  "Options (RegSetValueExA name data w) = Options w"
  "registry (RegSetValueExA name data w) = (registry w)(value_key name \<mapsto> data)"
  "frame (RegSetValueExA name data w) = frame w"
  by (simp_all add: RegSetValueExA_def emit_def frame_def hooks_def)

lemma final_world_simps [simp]:
  "final_world (Done w) = w"
  "final_world (ExitProcess c w) = w"
  "final_world (Fault w) = w"
  by (simp_all add: final_world_def)

lemma events_since_append [simp]: "trace w' = trace w @ evs \<Longrightarrow> events_since w w' = evs"
  by (simp add: events_since_def)

lemma value_keys [simp]:
  "value_key ''display'' = ''display''"
  "value_key ''managed'' = ''managed''"
  "value_key ''Desktop'' = ''desktop''"
  "value_key ''desktop'' = ''desktop''"
  by (simp_all add: value_key_def lower_char_def)

lemma frame_eqD:
  "frame w' = frame w \<Longrightarrow>
     hooks w' = hooks w \<and> server_keyboard w' = server_keyboard w \<and> keyboard_state w' = keyboard_state w"
  by (simp add: frame_def)

subsection \<open>Option resolution\<close>

lemma read_managed_fields [simp]:
  "trace (read_managed e w) = trace w"
  "registry (read_managed e w) = registry w"
  "opt_display (Options (read_managed e w)) = opt_display (Options w)"
  "opt_desktopGeometry (Options (read_managed e w)) = opt_desktopGeometry (Options w)"
  "frame (read_managed e w) = frame w"
  by (simp_all add: read_managed_def split: option.splits)

lemma read_desktop_fields [simp]:
  "trace (read_desktop e w) = trace w"
  "registry (read_desktop e w) = registry w"
  "opt_display (Options (read_desktop e w)) = opt_display (Options w)"
  "opt_managed (Options (read_desktop e w)) = opt_managed (Options w)"
  "frame (read_desktop e w) = frame w"
  by (simp_all add: read_desktop_def split: option.splits)

lemma write_managed_fields [simp]:
  "Options (write_managed w) = Options w"
  "registry (write_managed w) ''display'' = registry w ''display''"
  "frame (write_managed w) = frame w"
  "trace (write_managed w) = trace w @ (if opt_managed (Options w) then [Set_value ''managed'' ''y''] else [])"
  by (simp_all add: write_managed_def)

lemma write_desktop_fields [simp]:
  "Options (write_desktop w) = Options w"
  "registry (write_desktop w) ''display'' = registry w ''display''"
  "frame (write_desktop w) = frame w"
  "trace (write_desktop w) =
     trace w @ (case opt_desktopGeometry (Options w) of Some g \<Rightarrow> [Set_value ''desktop'' g] | None \<Rightarrow> [])"
  by (simp_all add: write_desktop_def split: option.splits)

lemma setup_managed_desktop_fields [simp]:
  "opt_display (Options (setup_managed_desktop e w)) = opt_display (Options w)"
  "registry (setup_managed_desktop e w) ''display'' = registry w ''display''"
  "frame (setup_managed_desktop e w) = frame w"
  by (simp_all add: setup_managed_desktop_def)

lemma setup_managed_desktop_trace:
  "trace (setup_managed_desktop e w) =
     trace w @ managed_desktop_events (setup_managed_desktop e w)"
  by (simp add: setup_managed_desktop_def managed_desktop_events_def)

lemma managed_desktop_events_kinds:
  "ev \<in> set (managed_desktop_events w) \<Longrightarrow>
     \<not> is_MESSAGE ev \<and> \<not> is_Create_window ev \<and> \<not> is_Open_display ev \<and> \<not> is_diagnostic ev
       \<and> (\<forall>v. ev \<noteq> Set_value ''display'' v)"
  by (auto simp: managed_desktop_events_def is_MESSAGE_def is_Create_window_def is_Open_display_def
      is_diagnostic_def split: if_splits option.splits)

lemma get_server_startup_fields [simp]:
  "trace (get_server_startup e w) = trace w"
  "Options (get_server_startup e w) = Options w"
  "registry (get_server_startup e w) = registry w"
  "frame (get_server_startup e w) = frame w"
  by (simp_all add: get_server_startup_def frame_def hooks_def)

lemma setup_display_persisted:
  assumes "registry w ''display'' = Some A" and "length A < 256"
    and "opt_display (Options w) = Some B" and "A \<noteq> B"
  shows "setup_display e w = Done (set_opt_display (Some A) (emit (warn_display_ignored e A) w))"
  using assms by (simp add: setup_display_def RegQueryValueExA_def sizeof_buffer_def)

lemma long_address_facts: "length long_address = 256" "long_address \<noteq> '':1''"
  by (auto simp: long_address_def dest: arg_cong [where f = length])

subsection \<open>The phases of \<open>process_attach\<close>\<close>

lemma install_hooks_fields [simp]:
  "trace (install_hooks e w) = trace w"
  "Options (install_hooks e w) = Options w"
  "server_keyboard (install_hooks e w) = server_keyboard w"
  "keyboard_state (install_hooks e w) = keyboard_state w"
  "hooks (install_hooks e w) =
     (if NO_REENTRANT_X11 e
      then (Some X11_errno_location, Some X11_h_errno_location,
            wine_errno_location w, wine_h_errno_location w)
      else hooks w)"
  by (simp_all add: install_hooks_def hooks_def Let_def)

lemma open_display_Done:
  assumes "open_display e w = Done w'"
  shows "frame w' = frame w" and "Options w' = Options w"
    and "\<exists>d. display w' = Some d \<and> XOpenDisplay e (opt_display (Options w)) = Some d \<and>
           trace w' = trace w @ [Open_display (opt_display (Options w)), Close_on_exec (ConnectionNumber d)]"
  using assms
  by (auto simp: open_display_def Let_def emit_def frame_def hooks_def split: option.splits)

lemma init_screen_depth_Done:
  assumes "init_screen_depth e d w = Done w'"
  shows "frame w' = frame w" and "Options w' = Options w" and "display w' = display w"
  using assms
  by (auto simp: init_screen_depth_def Let_def emit_def frame_def hooks_def split: if_splits)

lemma init_screen_size_fields [simp]:
  "frame (init_screen_size d w) = frame w"
  "Options (init_screen_size d w) = Options w"
  "display (init_screen_size d w) = display w"
  by (simp_all add: init_screen_size_def Let_def emit_def frame_def hooks_def)

lemma desktop_visual_Chosen:
  assumes "desktop_visual e d w = Chosen vi w1"
  shows "frame w1 = frame w" and "Options w1 = Options w"
    and "\<exists>evs. trace w1 = trace w @ evs \<and>
           (\<forall>ev \<in> set evs. \<not> is_Create_window ev \<and> \<not> is_Free ev \<and> \<not> is_diagnostic ev)"
  using assms
  by (auto simp: desktop_visual_def Let_def is_Create_window_def is_Free_def is_diagnostic_def
      split: if_splits option.splits)

lemma desktop_create_fields:
  assumes "desktop_create e d geom vi w = (g, w')"
  shows "g = TSXParseGeometry e geom 0 0 640 480"
    and "frame w' = frame w" and "Options w' = Options w"
    and "screen_width w' = geo_width g" and "screen_height w' = geo_height g"
    and "root_window w' = XCreateWindow e"
    and "trace w' = trace w @ [Parse_geometry geom, Create_font_cursor XC_top_left_arrow,
           Create_window (desktop_window e d g vi)]"
  using assms
  by (auto simp: desktop_create_def Let_def emit_def frame_def hooks_def split: option.splits)

lemma set_wm_properties_fields [simp]:
  "frame (set_wm_properties e g p1 p2 p3 w) = frame w"
  "Options (set_wm_properties e g p1 p2 p3 w) = Options w"
  "screen_width (set_wm_properties e g p1 p2 p3 w) = screen_width w"
  "screen_height (set_wm_properties e g p1 p2 p3 w) = screen_height w"
  "trace (set_wm_properties e g p1 p2 p3 w) =
     trace w @ [String_list_to_text_property desktop_name,
       Set_WM_properties (root_window w) desktop_name (desktop_size_hints g) desktop_wm_hints
         (desktop_class_hints e),
       Intern_atom ''WM_DELETE_WINDOW'', Set_WM_protocols (root_window w) (XInternAtom e),
       Free p1, Free p2, Free p3, Map_window (root_window w)]"
  by (simp_all add: set_wm_properties_def)

lemma desktop_properties_Done:
  assumes "desktop_properties e g w = Done w'"
  shows "\<exists>p1 p2 p3. XAllocSizeHints e = Some p1 \<and> XAllocWMHints e = Some p2 \<and>
           XAllocClassHint e = Some p3 \<and>
           w' = set_wm_properties e g p1 p2 p3
                  (emit (Alloc_class_hint (Some p3)) (emit (Alloc_WM_hints (Some p2))
                    (emit (Alloc_size_hints (Some p1)) w)))"
  using assms by (auto simp: desktop_properties_def Let_def split: option.splits)

lemma create_desktop_Done:
  assumes "create_desktop e geom w = Done w'"
  shows "\<exists>d vi w1 g w2. display w = Some d \<and> desktop_visual e d w = Chosen vi w1 \<and>
           desktop_create e d geom vi w1 = (g, w2) \<and> desktop_properties e g w2 = Done w'"
  using assms
  by (auto simp: create_desktop_def desktop_without_display_def Let_def
      split: option.splits chosen.splits prod.splits if_splits)

lemma create_desktop_frame:
  assumes "create_desktop e geom w = Done w'"
  shows "frame w' = frame w \<and> Options w' = Options w"
proof -
  obtain d vi w1 g w2 where v: "desktop_visual e d w = Chosen vi w1"
    and c: "desktop_create e d geom vi w1 = (g, w2)" and p: "desktop_properties e g w2 = Done w'"
    using create_desktop_Done [OF assms] by blast
  from desktop_properties_Done [OF p] obtain p1 p2 p3 where
    "w' = set_wm_properties e g p1 p2 p3
            (emit (Alloc_class_hint (Some p3)) (emit (Alloc_WM_hints (Some p2))
              (emit (Alloc_size_hints (Some p1)) w2)))" by blast
  then have "frame w' = frame w2" "Options w' = Options w2" by simp_all
  with desktop_create_fields(2,3) [OF c] desktop_visual_Chosen(1,2) [OF v] show ?thesis by simp
qed

lemma init_desktop_Done:
  assumes "init_desktop e w = Done w'"
  shows "frame w' = frame w"
    and "Options w' = (if opt_desktopGeometry (Options w) = None then Options w
                       else (Options w)\<lparr>opt_managed := False\<rparr>)"
  using assms create_desktop_frame [of e _ "set_opt_managed False w" w']
  by (auto simp: init_desktop_def split: option.splits)

lemma init_gdi_Done:
  assumes "init_gdi e w = Done w'"
  shows "frame w' = frame w" and "Options w' = Options w"
  using assms by (auto simp: init_gdi_def Let_def split: if_splits)

lemma init_rest_fields [simp]:
  "hooks (init_rest e w) = hooks w"
  "Options (init_rest e w) = Options w"
  "server_keyboard (init_rest e w) = server_keyboard w"
  "keyboard_state (init_rest e w) = server_keyboard w"
  by (simp_all add: init_rest_def Let_def emit_def hooks_def)

lemma attach_options_Done:
  assumes "attach_options e w = Done w'"
  shows "frame w' = frame w"
proof -
  let ?w0 = "get_server_startup e (w\<lparr>WND_Driver := True\<rparr>)"
  have 0: "frame ?w0 = frame w" by (simp add: get_server_startup_def frame_def hooks_def)
  from assms have "setup_options e ?w0 = Done w'" by (simp add: attach_options_def)
  then obtain w1 where 1: "setup_display e ?w0 = Done w1" and 2: "w' = setup_managed_desktop e w1"
    by (auto simp: setup_options_def and_then_def split: if_splits outcome.splits)
  from 1 have "frame w1 = frame ?w0"
    by (auto simp: setup_display_def Let_def split: option.splits if_splits)
  with 0 2 show ?thesis by simp
qed

text \<open>A finished attachment went through every phase.\<close>

lemma process_attach_Done:
  assumes "process_attach e w = Done w'"
  shows "\<exists>w1 w2 d w3 w4 w5.
           attach_options e w = Done w1 \<and> open_display e (install_hooks e w1) = Done w2 \<and>
           display w2 = Some d \<and> init_screen_depth e d w2 = Done w3 \<and>
           init_desktop e (init_screen_size d w3) = Done w4 \<and> init_gdi e w4 = Done w5 \<and>
           w' = init_rest e w5"
  using assms
  by (auto simp: process_attach_def attach_display_def and_then_def
      split: outcome.splits option.splits)

lemma process_attach_hooks:
  assumes "process_attach e w = Done w'" and "NO_REENTRANT_X11 e"
  shows "hooks w' = (Some X11_errno_location, Some X11_h_errno_location,
           wine_errno_location w, wine_h_errno_location w)"
proof -
  obtain w1 w2 d w3 w4 w5 where 1: "attach_options e w = Done w1"
    and 2: "open_display e (install_hooks e w1) = Done w2"
    and 3: "init_screen_depth e d w2 = Done w3"
    and 4: "init_desktop e (init_screen_size d w3) = Done w4"
    and 5: "init_gdi e w4 = Done w5" and 6: "w' = init_rest e w5"
    using process_attach_Done [OF assms(1)] by blast
  have "hooks w' = hooks w5" by (simp add: 6)
  also have "\<dots> = hooks w4" using init_gdi_Done(1) [OF 5] by (simp add: frame_def)
  also have "\<dots> = hooks (init_screen_size d w3)" using init_desktop_Done(1) [OF 4] by (simp add: frame_def)
  also have "\<dots> = hooks w3" using init_screen_size_fields(1) [of d w3] by (simp add: frame_def)
  also have "\<dots> = hooks w2" using init_screen_depth_Done(1) [OF 3] by (simp add: frame_def)
  also have "\<dots> = hooks (install_hooks e w1)" using open_display_Done(1) [OF 2] by (simp add: frame_def)
  also have "\<dots> = (Some X11_errno_location, Some X11_h_errno_location,
      wine_errno_location w1, wine_h_errno_location w1)" using assms(2) by simp
  also have "\<dots> = (Some X11_errno_location, Some X11_h_errno_location,
      wine_errno_location w, wine_h_errno_location w)"
    using attach_options_Done [OF 1] by (simp add: frame_def hooks_def)
  finally show ?thesis .
qed

lemma process_attach_keyboard:
  assumes "process_attach e w = Done w'"
  shows "keyboard_state w' = server_keyboard w"
proof -
  obtain w1 w2 d w3 w4 w5 where 1: "attach_options e w = Done w1"
    and 2: "open_display e (install_hooks e w1) = Done w2"
    and 3: "init_screen_depth e d w2 = Done w3"
    and 4: "init_desktop e (init_screen_size d w3) = Done w4"
    and 5: "init_gdi e w4 = Done w5" and 6: "w' = init_rest e w5"
    using process_attach_Done [OF assms(1)] by blast
  have "keyboard_state w' = server_keyboard w5" by (simp add: 6)
  also have "\<dots> = server_keyboard w4" using init_gdi_Done(1) [OF 5] by (simp add: frame_def)
  also have "\<dots> = server_keyboard (init_screen_size d w3)"
    using init_desktop_Done(1) [OF 4] by (simp add: frame_def)
  also have "\<dots> = server_keyboard w3" using init_screen_size_fields(1) [of d w3] by (simp add: frame_def)
  also have "\<dots> = server_keyboard w2" using init_screen_depth_Done(1) [OF 3] by (simp add: frame_def)
  also have "\<dots> = server_keyboard (install_hooks e w1)"
    using open_display_Done(1) [OF 2] by (simp add: frame_def)
  also have "\<dots> = server_keyboard w" using attach_options_Done [OF 1] by (simp add: frame_def)
  finally show ?thesis .
qed


subsection \<open>Until the display is open, no window is created\<close>

lemma depth_search_absent: "depth \<notin> set xs \<Longrightarrow> depth_search xs depth i = i + length xs"
  by (induction xs arbitrary: i) auto

lemma no_window_yet_and_then:
  assumes "no_window_yet w r" and "\<And>w1. r = Done w1 \<Longrightarrow> no_window_yet w1 (f w1)"
  shows "no_window_yet w (and_then r f)"
proof (cases r)
  case (Done w1)
  from assms(1) Done obtain evs where a: "trace w1 = trace w @ evs"
    "\<forall>ev \<in> set evs. \<not> is_Create_window ev" by (auto simp: no_window_yet_def)
  from assms(2) [OF Done] obtain evs' where b: "trace (final_world (f w1)) = trace w1 @ evs'"
    "\<forall>ev \<in> set evs'. \<not> is_Create_window ev"
    "case f w1 of Done w' \<Rightarrow> True
     | ExitProcess c w' \<Rightarrow> c = 1 \<and> evs' \<noteq> [] \<and> is_diagnostic (last evs')
     | Fault w' \<Rightarrow> False"
    unfolding no_window_yet_def by blast
  have "trace (final_world (f w1)) = trace w @ (evs @ evs')" using a b by simp
  moreover have "\<forall>ev \<in> set (evs @ evs'). \<not> is_Create_window ev" using a b by auto
  moreover have "case f w1 of Done w' \<Rightarrow> True
     | ExitProcess c w' \<Rightarrow> c = 1 \<and> evs @ evs' \<noteq> [] \<and> is_diagnostic (last (evs @ evs'))
     | Fault w' \<Rightarrow> False"
    using b(3) by (auto split: outcome.splits)
  ultimately show ?thesis
    unfolding no_window_yet_def and_then_def Done by (simp only: outcome.case) blast
next
  case (ExitProcess c w1)
  with assms(1) show ?thesis by (simp add: and_then_def no_window_yet_def)
next
  case (Fault w1)
  with assms(1) show ?thesis by (simp add: and_then_def no_window_yet_def)
qed

lemma no_window_yet_start:
  "trace w0 = trace w \<Longrightarrow> no_window_yet w0 r \<Longrightarrow> no_window_yet w r"
  by (simp add: no_window_yet_def)

lemma setup_display_quiet: "no_window_yet w (setup_display e w)"
  by (auto simp: no_window_yet_def setup_display_def Let_def is_Create_window_def is_diagnostic_def
      warn_display_ignored_def warn_DISPLAY_ignored_def no_display_specified_def
      split: option.splits)

lemma setup_managed_desktop_quiet: "no_window_yet w (Done (setup_managed_desktop e w))"
  unfolding no_window_yet_def
  using setup_managed_desktop_trace [of e w] managed_desktop_events_kinds
  by (intro exI [of _ "managed_desktop_events (setup_managed_desktop e w)"]) auto

lemma setup_options_quiet: "no_window_yet w (setup_options e w)"
proof (cases "RegCreateKeyExA e = 0")
  case True
  then show ?thesis
    using no_window_yet_and_then [OF setup_display_quiet, of e w "\<lambda>w'. Done (setup_managed_desktop e w')"]
      setup_managed_desktop_quiet
    by (simp add: setup_options_def)
next
  case False
  then show ?thesis
    by (simp add: setup_options_def no_window_yet_def cannot_create_key_def is_diagnostic_def
        is_Create_window_def)
qed

lemma open_display_quiet: "no_window_yet w (open_display e w)"
  by (auto simp: no_window_yet_def open_display_def Let_def emit_def is_Create_window_def
      is_diagnostic_def cannot_open_display_def split: option.splits)

lemma attach_display_quiet: "no_window_yet w (attach_display e w)"
proof -
  have "no_window_yet (get_server_startup e (w\<lparr>WND_Driver := True\<rparr>)) (attach_options e w)"
    unfolding attach_options_def by (rule setup_options_quiet)
  then have a: "no_window_yet w (attach_options e w)"
    by (rule no_window_yet_start [rotated]) (simp add: get_server_startup_def)
  have b: "no_window_yet w1 (open_display e (install_hooks e w1))" for w1
    by (rule no_window_yet_start [OF _ open_display_quiet]) simp
  show ?thesis unfolding attach_display_def
    by (rule no_window_yet_and_then [OF a]) (rule b)
qed

lemma attach_display_Done:
  assumes "attach_display e w = Done w2"
  shows "\<exists>d name. display w2 = Some d \<and> XOpenDisplay e name = Some d"
  using assms open_display_Done(3)
  by (fastforce simp: attach_display_def and_then_def split: outcome.splits)

lemma init_screen_depth_unsupported:
  assumes "ScreenDepth e \<noteq> 0" and "ScreenDepth e \<notin> set (ListDepths d (DefaultScreen d))"
  shows "\<exists>w'. init_screen_depth e d w = ExitProcess 1 w' \<and>
           trace w' = trace w @ [List_depths (DefaultScreen d), Free_depth_list,
             depth_not_supported e (ScreenDepth e)]"
  using assms by (simp add: init_screen_depth_def Let_def emit_def depth_search_absent)


subsection \<open>The location hooks\<close>

lemma call_location_world:
  "call_location (w\<lparr>X11DRV_CritSection := cs\<rparr>) (Some X11_errno_location) tid =
     (if OwningThread cs = tid then Some (Location Static_errno)
      else call_location (w\<lparr>X11DRV_CritSection := cs\<rparr>) (old_errno_location w) tid)"
  "call_location (w\<lparr>X11DRV_CritSection := cs\<rparr>) (Some X11_h_errno_location) tid =
     (if OwningThread cs = tid then Some (Location Static_h_errno)
      else call_location (w\<lparr>X11DRV_CritSection := cs\<rparr>) (old_h_errno_location w) tid)"
  by (subst call_location.simps, simp)+

lemma call_location_Other: "call_location w (Some (Other_location f)) tid = Some (Location (f tid))"
  by (subst call_location.simps) simp


subsection \<open>The desktop window\<close>

lemma create_desktop_run:
  assumes "display w = Some d" and "desktop_visual e d w = Chosen vi w1"
  shows "create_desktop e geom w =
           desktop_properties e (TSXParseGeometry e geom 0 0 640 480)
             (snd (desktop_create e d geom vi w1))"
  using assms by (simp add: create_desktop_def desktop_create_def Let_def)

lemma desktop_create_snd:
  "trace (snd (desktop_create e d geom vi w)) =
     trace w @ [Parse_geometry geom, Create_font_cursor XC_top_left_arrow,
       Create_window (desktop_window e d (TSXParseGeometry e geom 0 0 640 480) vi)]"
  "root_window (snd (desktop_create e d geom vi w)) = XCreateWindow e"
  "screen_width (snd (desktop_create e d geom vi w)) = geo_width (TSXParseGeometry e geom 0 0 640 480)"
  "screen_height (snd (desktop_create e d geom vi w)) = geo_height (TSXParseGeometry e geom 0 0 640 480)"
  by (simp_all add: desktop_create_def Let_def emit_def split: option.splits prod.splits)

lemma create_desktop_starved:
  assumes "display w = Some d" and "desktop_visual e d w = Chosen vi w1"
    and "XAllocSizeHints e = None \<or> XAllocWMHints e = None \<or> XAllocClassHint e = None"
  shows "\<exists>w'. create_desktop e geom w = ExitProcess 1 w' \<and>
           trace w' = trace w1 @ creation_events e d geom vi @ [not_enough_memory]"
  using assms(3)
  by (auto simp: create_desktop_run [OF assms(1,2)] desktop_properties_def Let_def
      desktop_create_snd creation_events_def split: option.splits)

lemma create_desktop_served:
  assumes "display w = Some d" and "desktop_visual e d w = Chosen vi w1"
    and "XAllocSizeHints e = Some p1" and "XAllocWMHints e = Some p2" and "XAllocClassHint e = Some p3"
  shows "\<exists>w'. create_desktop e geom w = Done w' \<and>
           trace w' = trace w1 @ creation_events e d geom vi @ property_events e geom p1 p2 p3 \<and>
           screen_width w' = geo_width (TSXParseGeometry e geom 0 0 640 480) \<and>
           screen_height w' = geo_height (TSXParseGeometry e geom 0 0 640 480)"
  using assms(3-5)
  by (simp add: create_desktop_run [OF assms(1,2)] desktop_properties_def Let_def
      desktop_create_snd creation_events_def property_events_def)

lemma creation_events_kinds:
  "filter is_Free (creation_events e d geom vi) = []"
  "filter is_Create_window (creation_events e d geom vi) =
     [Create_window (desktop_window e d (TSXParseGeometry e geom 0 0 640 480) vi)]"
  by (simp_all add: creation_events_def is_Free_def is_Create_window_def)

lemma property_events_kinds:
  "filter is_Free (property_events e geom p1 p2 p3) = [Free p1, Free p2, Free p3]"
  "filter is_Create_window (property_events e geom p1 p2 p3) = []"
  by (simp_all add: property_events_def is_Free_def is_Create_window_def)

lemma desktop_visual_events:
  assumes "desktop_visual e d w = Chosen vi w1"
  obtains evs where "trace w1 = trace w @ evs" "filter is_Free evs = []"
    "filter is_Create_window evs = []"
  using desktop_visual_Chosen(3) [OF assms] by (auto simp: filter_empty_conv)


subsection \<open>Detaching and the screen saver\<close>

lemma fold_change_keyboard [simp]:
  "keyboard_state (fold change_keyboard fs w) = keyboard_state w"
  "trace (fold change_keyboard fs w) = trace w"
  by (induction fs arbitrary: w) (simp_all add: change_keyboard_def)

lemma keyboard_mask_value: "keyboard_mask = 0x8F"
  by (simp add: keyboard_mask_def x11_constants)

lemma process_detach_trace:
  "trace (process_detach e w) =
     trace w @ Change_keyboard_control keyboard_mask (keyboard_value w) #
       (if HAVE_LIBXXF86VM e then [XF86VM_Cleanup] else []) @ [GDI_Finalize]"
  by (simp add: process_detach_def Let_def emit_def)

lemma SetScreenSaveActive_saver [simp]:
  "server_saver (X11DRV_SetScreenSaveActive b w) = server_saver w"
  by (simp add: X11DRV_SetScreenSaveActive_def)

lemma fold_SetScreenSaveActive_saver:
  "server_saver (fold X11DRV_SetScreenSaveActive bs w) = server_saver w"
  by (induction bs arbitrary: w) simp_all


subsection \<open>Runs of the concrete machine\<close>

lemmas run_defs = process_attach_def attach_display_def attach_options_def setup_options_def
  setup_display_def setup_managed_desktop_def read_managed_def read_desktop_def write_managed_def
  write_desktop_def get_server_startup_def and_then_def RegQueryValueExA_def RegSetValueExA_def
  sizeof_buffer_def emit_def set_opt_display_def set_opt_managed_def set_opt_desktopGeometry_def
  install_hooks_def open_display_def init_screen_depth_def init_screen_size_def init_desktop_def
  init_gdi_def init_rest_def first_char_def create_desktop_def desktop_visual_def
  desktop_create_def desktop_properties_def set_wm_properties_def TSXParseGeometry_def

lemma example_attach: "process_attach example_environment example_world = Done attached_world"
  by (simp add: attached_world_def run_defs example_environment_def example_world_def
      example_display_def)


lemma open_world_visual:
  "display open_world = Some example_display"
  "desktop_visual example_environment example_display open_world = Chosen None open_world"
  "desktop_visual starved_environment example_display open_world = Chosen None open_world"
  by (simp_all add: open_world_def example_world_def desktop_visual_def example_environment_def
      starved_environment_def)

lemma example_desktops:
  "create_desktop example_environment ''800x600+10+20'' open_world =
     Done (final_world (create_desktop example_environment ''800x600+10+20'' open_world))"
  "create_desktop example_environment '''' open_world =
     Done (final_world (create_desktop example_environment '''' open_world))"
proof -
  have a: "XAllocSizeHints example_environment = Some 1000"
    "XAllocWMHints example_environment = Some 2000" "XAllocClassHint example_environment = Some 3000"
    by (simp_all add: example_environment_def)
  have "\<exists>w'. create_desktop example_environment geom open_world = Done w'" for geom
    using create_desktop_served [OF open_world_visual(1,2) a, of geom] by blast
  then show
    "create_desktop example_environment ''800x600+10+20'' open_world =
       Done (final_world (create_desktop example_environment ''800x600+10+20'' open_world))"
    "create_desktop example_environment '''' open_world =
       Done (final_world (create_desktop example_environment '''' open_world))"
    by (metis final_world_simps(1))+
qed

section \<open>The claims\<close>

subsection \<open>C1: the location hooks\<close>

text \<open>
  C1. In a build with \<open>NO_REENTRANT_X11\<close>, \<open>process_attach\<close> installs \<open>x11_errno_location\<close>
  and \<open>x11_h_errno_location\<close> as the location hooks. From then on, whatever thread
  \<open>cs\<close> records as the owner of the critical section: a call of the hook by that thread
  returns the static \<open>errno\<close> (or \<open>h_errno\<close>) of libc, and a call by any other thread
  returns what the hook that was installed before the attachment returns for it.
\<close>

theorem errno_hooks_redirect_owner:
  assumes "process_attach e w = Done w'" and "NO_REENTRANT_X11 e"
  shows "wine_errno_location w' = Some X11_errno_location \<and>
         wine_h_errno_location w' = Some X11_h_errno_location \<and>
         x11_errno_location (w'\<lparr>X11DRV_CritSection := cs\<rparr>) tid =
           (if OwningThread cs = tid then Some (Location Static_errno)
            else call_location (w'\<lparr>X11DRV_CritSection := cs\<rparr>) (wine_errno_location w) tid) \<and>
         x11_h_errno_location (w'\<lparr>X11DRV_CritSection := cs\<rparr>) tid =
           (if OwningThread cs = tid then Some (Location Static_h_errno)
            else call_location (w'\<lparr>X11DRV_CritSection := cs\<rparr>) (wine_h_errno_location w) tid)"
  using process_attach_hooks [OF assms]
  by (simp add: hooks_def x11_errno_location_def x11_h_errno_location_def call_location_world)

theorem errno_hooks_redirect_owner_witness:
  "x11_errno_location (attached_world\<lparr>X11DRV_CritSection := \<lparr>OwningThread = 7, RecursionCount = 1\<rparr>\<rparr>) 7
     = Some (Location Static_errno) \<and>
   x11_errno_location (attached_world\<lparr>X11DRV_CritSection := \<lparr>OwningThread = 7, RecursionCount = 1\<rparr>\<rparr>) 8
     = Some (Location (Slot 8)) \<and>
   x11_h_errno_location (attached_world\<lparr>X11DRV_CritSection := \<lparr>OwningThread = 7, RecursionCount = 1\<rparr>\<rparr>) 7
     = Some (Location Static_h_errno) \<and>
   x11_h_errno_location (attached_world\<lparr>X11DRV_CritSection := \<lparr>OwningThread = 7, RecursionCount = 1\<rparr>\<rparr>) 8
     = Some (Location (Slot 1008))"
  using errno_hooks_redirect_owner [OF example_attach, of "\<lparr>OwningThread = 7, RecursionCount = 1\<rparr>" 7]
    errno_hooks_redirect_owner [OF example_attach, of "\<lparr>OwningThread = 7, RecursionCount = 1\<rparr>" 8]
  by (simp add: example_environment_def example_world_def call_location_Other)

subsection \<open>C2: a persisted display wins over \<open>--display\<close>\<close>

text \<open>
  C2, as the code has it. When the registry holds the display \<open>A\<close>, \<open>A\<close> fits the
  256-byte buffer of \<open>setup_options\<close> with its terminating zero (it has at most 255
  characters), the command line gave the display \<open>B\<close> and \<open>A\<close> differs from \<open>B\<close>, then
  \<open>setup_options\<close> returns with \<open>Options.display\<close> equal to \<open>A\<close>, the only message it has
  printed is the warning that \<open>--display\<close> is ignored, the registry still holds \<open>A\<close>
  under \<open>display\<close>, and no value was written under that name.
\<close>

theorem persisted_display_wins:
  assumes "RegCreateKeyExA e = 0"
    and "registry w ''display'' = Some A" and "length A < 256"
    and "opt_display (Options w) = Some B" and "A \<noteq> B"
  shows "\<exists>w'. setup_options e w = Done w' \<and>
           opt_display (Options w') = Some A \<and>
           filter is_MESSAGE (events_since w w') = [warn_display_ignored e A] \<and>
           registry w' ''display'' = Some A \<and>
           (\<forall>v. Set_value ''display'' v \<notin> set (events_since w w'))"
proof -
  let ?w1 = "set_opt_display (Some A) (emit (warn_display_ignored e A) w)"
  let ?w' = "setup_managed_desktop e ?w1"
  have run: "setup_options e w = Done ?w'"
    using assms(1) setup_display_persisted [OF assms(2-5)] by (simp add: setup_options_def and_then_def)
  have tr: "trace ?w' = trace w @ (warn_display_ignored e A # managed_desktop_events ?w')"
    by (simp add: setup_managed_desktop_trace [of e ?w1])
  have quiet: "filter is_MESSAGE (managed_desktop_events ?w') = []"
    using managed_desktop_events_kinds [of _ ?w'] by (simp add: filter_empty_conv)
  have ev: "events_since w ?w' = warn_display_ignored e A # managed_desktop_events ?w'"
    using tr by simp
  have "filter is_MESSAGE (events_since w ?w') = [warn_display_ignored e A]"
    by (simp add: ev quiet) (simp add: warn_display_ignored_def is_MESSAGE_def)
  moreover have "Set_value ''display'' v \<notin> set (events_since w ?w')" for v
  proof -
    have "Set_value ''display'' v \<noteq> warn_display_ignored e A"
      by (simp add: warn_display_ignored_def)
    moreover have "Set_value ''display'' v \<notin> set (managed_desktop_events ?w')"
      using managed_desktop_events_kinds [of "Set_value ''display'' v" ?w'] by blast
    ultimately show ?thesis by (simp add: ev)
  qed
  moreover have "opt_display (Options ?w') = Some A" by simp
  moreover have "registry ?w' ''display'' = Some A" using assms(2) by simp
  ultimately show ?thesis using run by blast
qed

theorem persisted_display_wins_witness:
  "\<exists>w'. setup_options example_environment (conflict_world '':0'' '':1'') = Done w' \<and>
      opt_display (Options w') = Some '':0'' \<and>
      filter is_MESSAGE (events_since (conflict_world '':0'' '':1'') w') =
        [warn_display_ignored example_environment '':0''] \<and>
      registry w' ''display'' = Some '':0'' \<and>
      (\<forall>v. Set_value ''display'' v \<notin> set (events_since (conflict_world '':0'' '':1'') w'))"
  using persisted_display_wins [of example_environment "conflict_world '':0'' '':1''" "'':0''" "'':1''"]
  by (simp add: example_environment_def conflict_world_def example_world_def)

text \<open>
  C2 as stated, for every \<open>A\<close>, does not hold: a persisted display of 256 characters
  does not fit the buffer, the query fails, and the code takes the branch of a missing
  value. The display of the command line stays in force, no warning is printed, and the
  registry value is overwritten with it.
\<close>

theorem long_persisted_display_is_overwritten:
  "RegCreateKeyExA example_environment = 0 \<and>
   registry (conflict_world long_address '':1'') ''display'' = Some long_address \<and>
   opt_display (Options (conflict_world long_address '':1'')) = Some '':1'' \<and>
   long_address \<noteq> '':1'' \<and>
   setup_options example_environment (conflict_world long_address '':1'') =
     Done (emit Close_key (RegSetValueExA ''display'' '':1'' (conflict_world long_address '':1''))) \<and>
   opt_display (Options (final_world
     (setup_options example_environment (conflict_world long_address '':1'')))) = Some '':1'' \<and>
   registry (final_world
     (setup_options example_environment (conflict_world long_address '':1''))) ''display'' = Some '':1'' \<and>
   filter is_MESSAGE (events_since (conflict_world long_address '':1'') (final_world
     (setup_options example_environment (conflict_world long_address '':1'')))) = []"
proof -
  let ?w = "conflict_world long_address '':1''"
  have reg: "registry ?w ''display'' = Some long_address"
    and opt: "Options ?w = \<lparr>opt_display = Some '':1'', opt_managed = False,
                opt_desktopGeometry = None, opt_synchronous = False\<rparr>"
    and reg': "registry ?w ''managed'' = None" "registry ?w ''desktop'' = None"
    by (simp_all add: conflict_world_def example_world_def)
  have env: "RegCreateKeyExA example_environment = 0"
    by (simp add: example_environment_def)
  have q: "RegQueryValueExA (registry ?w) ''display'' sizeof_buffer = None"
    by (simp add: RegQueryValueExA_def sizeof_buffer_def reg long_address_facts)
  have d: "setup_display example_environment ?w = Done (RegSetValueExA ''display'' '':1'' ?w)"
    by (simp add: setup_display_def q opt)
  have m: "setup_managed_desktop example_environment (RegSetValueExA ''display'' '':1'' ?w) =
      emit Close_key (RegSetValueExA ''display'' '':1'' ?w)"
    by (simp add: setup_managed_desktop_def write_desktop_def write_managed_def read_desktop_def
        read_managed_def RegQueryValueExA_def opt reg')
  have run: "setup_options example_environment ?w =
      Done (emit Close_key (RegSetValueExA ''display'' '':1'' ?w))"
    by (simp add: setup_options_def env d m and_then_def)
  show ?thesis
    by (simp add: run env reg long_address_facts opt events_since_def is_MESSAGE_def)
qed

subsection \<open>C3: a depth the screen does not have\<close>

text \<open>
  C3. When \<open>wine.ini\<close> asks for a screen depth (\<open>ScreenDepth\<close> is not 0) that is not in
  the list of depths of the default screen of the display that the attachment opens,
  \<open>process_attach\<close> leaves the process with status 1, the last call it has made is a
  diagnostic, and no call before it has created a window. When the display was opened,
  the diagnostic is \<open>Depth %d not supported on this screen\<close>; when it was not, option
  resolution or the opening of the display has ended the process in the same way.
\<close>

theorem unsupported_depth_is_fatal:
  assumes "ScreenDepth e \<noteq> 0"
    and "\<forall>w2 d. attach_display e w = Done w2 \<longrightarrow> display w2 = Some d \<longrightarrow>
           ScreenDepth e \<notin> set (ListDepths d (DefaultScreen d))"
  shows "\<exists>w' evs. process_attach e w = ExitProcess 1 w' \<and> trace w' = trace w @ evs \<and>
           evs \<noteq> [] \<and> is_diagnostic (last evs) \<and> (\<forall>ev \<in> set evs. \<not> is_Create_window ev) \<and>
           ((\<exists>w2. attach_display e w = Done w2) \<longrightarrow> last evs = depth_not_supported e (ScreenDepth e))"
proof (cases "attach_display e w")
  case (Done w2)
  from attach_display_quiet [of w e] Done obtain evs where a: "trace w2 = trace w @ evs"
    "\<forall>ev \<in> set evs. \<not> is_Create_window ev" by (auto simp: no_window_yet_def)
  from attach_display_Done [OF Done] obtain d where "display w2 = Some d" by blast
  with assms(2) Done have d: "display w2 = Some d"
    "ScreenDepth e \<notin> set (ListDepths d (DefaultScreen d))" by blast+
  from init_screen_depth_unsupported [OF assms(1) d(2), of w2] obtain w' where
    x: "init_screen_depth e d w2 = ExitProcess 1 w'"
    and t: "trace w' = trace w2 @ [List_depths (DefaultScreen d), Free_depth_list,
             depth_not_supported e (ScreenDepth e)]" by blast
  let ?evs = "evs @ [List_depths (DefaultScreen d), Free_depth_list,
             depth_not_supported e (ScreenDepth e)]"
  have "process_attach e w = ExitProcess 1 w'"
    by (simp add: process_attach_def Done and_then_def d x)
  moreover have "trace w' = trace w @ ?evs" using a t by simp
  moreover have "?evs \<noteq> []" "last ?evs = depth_not_supported e (ScreenDepth e)" by simp_all
  moreover have "is_diagnostic (depth_not_supported e (ScreenDepth e))"
    by (simp add: depth_not_supported_def is_diagnostic_def)
  moreover have "\<forall>ev \<in> set ?evs. \<not> is_Create_window ev"
    using a(2) by (auto simp: is_Create_window_def depth_not_supported_def)
  ultimately show ?thesis by metis
next
  case (ExitProcess c w2)
  from attach_display_quiet [of w e] ExitProcess obtain evs where "trace w2 = trace w @ evs"
    "\<forall>ev \<in> set evs. \<not> is_Create_window ev" "c = 1" "evs \<noteq> []" "is_diagnostic (last evs)"
    by (auto simp: no_window_yet_def)
  moreover have "process_attach e w = ExitProcess c w2"
    by (simp add: process_attach_def ExitProcess and_then_def)
  ultimately show ?thesis using ExitProcess by auto
next
  case (Fault w2)
  with attach_display_quiet [of w e] show ?thesis by (simp add: no_window_yet_def)
qed

theorem unsupported_depth_is_fatal_witness:
  "\<exists>w' evs. process_attach deep_environment example_world = ExitProcess 1 w' \<and>
      trace w' = trace example_world @ evs \<and>
      last evs = MESSAGE (''%s: Depth %d not supported on this screen.'' @ newline) [Str ''wine'', Num 15] \<and>
      \<not> list_ex is_Create_window evs"
proof -
  have 1: "ScreenDepth deep_environment \<noteq> 0"
    by (simp add: deep_environment_def example_environment_def)
  have 2: "\<forall>w2 d. attach_display deep_environment example_world = Done w2 \<longrightarrow>
           display w2 = Some d \<longrightarrow>
           ScreenDepth deep_environment \<notin> set (ListDepths d (DefaultScreen d))"
    by (auto simp: deep_environment_def run_defs example_environment_def example_world_def
        example_display_def)
  have 3: "\<exists>w2. attach_display deep_environment example_world = Done w2"
    by (simp add: deep_environment_def run_defs example_environment_def example_world_def
        example_display_def)
  have 4: "depth_not_supported deep_environment (ScreenDepth deep_environment) =
      MESSAGE (''%s: Depth %d not supported on this screen.'' @ newline) [Str ''wine'', Num 15]"
    by (simp add: depth_not_supported_def deep_environment_def example_environment_def)
  from unsupported_depth_is_fatal [OF 1 2] 3 4 show ?thesis
    by (auto simp: list_ex_iff)
qed

subsection \<open>C4: no display at all\<close>

text \<open>
  C4. When the registry holds no display, none was given on the command line and
  \<open>DISPLAY\<close> is not set, \<open>setup_options\<close> leaves the process with status 1 after one
  diagnostic (\<open>no display specified\<close>, or that the registry key cannot be created when
  that fails first), and so does \<open>process_attach\<close>: the diagnostic is the only call it
  has made, so no connection to the server was attempted.
\<close>

theorem no_display_is_fatal:
  assumes "registry w ''display'' = None" and "opt_display (Options w) = None"
    and "getenv_DISPLAY e = None"
  shows "setup_options e w = ExitProcess 1 (emit (fatal_no_display e) w) \<and>
         process_attach e w =
           ExitProcess 1 (emit (fatal_no_display e) (get_server_startup e (w\<lparr>WND_Driver := True\<rparr>))) \<and>
         events_since w (final_world (process_attach e w)) = [fatal_no_display e] \<and>
         is_diagnostic (fatal_no_display e) \<and> \<not> is_Open_display (fatal_no_display e)"
proof -
  have d: "setup_display e w' = ExitProcess 1 (emit (no_display_specified e) w')"
    if "registry w' = registry w" "Options w' = Options w" for w'
    using assms that by (simp add: setup_display_def RegQueryValueExA_def)
  have s: "setup_options e w' = ExitProcess 1 (emit (fatal_no_display e) w')"
    if "registry w' = registry w" "Options w' = Options w" for w'
    using d [OF that] by (simp add: setup_options_def fatal_no_display_def and_then_def)
  have a: "process_attach e w =
      ExitProcess 1 (emit (fatal_no_display e) (get_server_startup e (w\<lparr>WND_Driver := True\<rparr>)))"
    by (simp add: process_attach_def attach_display_def attach_options_def s and_then_def)
  show ?thesis
    by (simp add: s a events_since_def)
      (simp add: fatal_no_display_def cannot_create_key_def no_display_specified_def
        is_diagnostic_def is_Open_display_def)
qed

theorem no_display_is_fatal_witness:
  "setup_options (example_environment\<lparr>getenv_DISPLAY := None\<rparr>) example_world =
     ExitProcess 1 (emit (fatal_no_display (example_environment\<lparr>getenv_DISPLAY := None\<rparr>)) example_world) \<and>
   events_since example_world
     (final_world (process_attach (example_environment\<lparr>getenv_DISPLAY := None\<rparr>) example_world)) =
     [MESSAGE (''%s: no display specified'' @ newline) [Str ''wine'']]"
  using no_display_is_fatal [of example_world "example_environment\<lparr>getenv_DISPLAY := None\<rparr>"]
  by (simp add: example_environment_def example_world_def fatal_no_display_def no_display_specified_def)

subsection \<open>C5: the geometry of the desktop window\<close>

text \<open>
  C5. When \<open>create_desktop\<close> returns, it has created exactly one window, and the width
  and height of that window are the recorded \<open>screen_width\<close> and \<open>screen_height\<close>. Each
  of the two is the default (640, 480) exactly when the geometry string holds no value
  for it, and the parsed value otherwise; the position of the window is the parsed
  \<open>x\<close> and \<open>y\<close> where the string holds them, and 0 where it does not.
\<close>

theorem desktop_geometry_defaults:
  assumes "create_desktop e geom w = Done w'"
  shows "\<exists>cw. filter is_Create_window (events_since w w') = [Create_window cw] \<and>
           cw_width cw = screen_width w' \<and> cw_height cw = screen_height w' \<and>
           screen_width w' = (if geo_flags (XParseGeometry e geom) AND WidthValue = 0 then 640
                              else geo_width (XParseGeometry e geom)) \<and>
           screen_height w' = (if geo_flags (XParseGeometry e geom) AND HeightValue = 0 then 480
                               else geo_height (XParseGeometry e geom)) \<and>
           cw_x cw = (if geo_flags (XParseGeometry e geom) AND XValue = 0 then 0
                      else geo_x (XParseGeometry e geom)) \<and>
           cw_y cw = (if geo_flags (XParseGeometry e geom) AND YValue = 0 then 0
                      else geo_y (XParseGeometry e geom))"
proof -
  obtain d vi w1 g w2 where d: "display w = Some d" and v: "desktop_visual e d w = Chosen vi w1"
    and p: "desktop_properties e g w2 = Done w'"
    using create_desktop_Done [OF assms] by blast
  from desktop_properties_Done [OF p] obtain p1 p2 p3 where
    a: "XAllocSizeHints e = Some p1" "XAllocWMHints e = Some p2" "XAllocClassHint e = Some p3"
    by blast
  let ?g = "TSXParseGeometry e geom 0 0 640 480"
  from create_desktop_served [OF d v a, of geom] assms
  have t: "trace w' = trace w1 @ creation_events e d geom vi @ property_events e geom p1 p2 p3"
    and s: "screen_width w' = geo_width ?g" "screen_height w' = geo_height ?g" by simp_all
  obtain evs0 where e0: "trace w1 = trace w @ evs0" "filter is_Create_window evs0 = []"
    using desktop_visual_events [OF v] by blast
  have "events_since w w' = evs0 @ creation_events e d geom vi @ property_events e geom p1 p2 p3"
    using e0 t by simp
  then have "filter is_Create_window (events_since w w') = [Create_window (desktop_window e d ?g vi)]"
    using e0(2) by (simp add: creation_events_kinds property_events_kinds)
  then show ?thesis
    by (simp add: s desktop_window_def TSXParseGeometry_def Let_def)
qed

theorem desktop_geometry_defaults_witness:
  "(\<exists>cw. filter is_Create_window (events_since open_world
            (final_world (create_desktop example_environment ''800x600+10+20'' open_world))) =
            [Create_window cw] \<and>
          cw_width cw = 800 \<and> cw_height cw = 600 \<and> cw_x cw = 10 \<and> cw_y cw = 20) \<and>
   screen_width (final_world (create_desktop example_environment ''800x600+10+20'' open_world)) = 800 \<and>
   screen_height (final_world (create_desktop example_environment ''800x600+10+20'' open_world)) = 600 \<and>
   (\<exists>cw. filter is_Create_window (events_since open_world
            (final_world (create_desktop example_environment '''' open_world))) =
            [Create_window cw] \<and>
          cw_width cw = 640 \<and> cw_height cw = 480 \<and> cw_x cw = 0 \<and> cw_y cw = 0) \<and>
   screen_width (final_world (create_desktop example_environment '''' open_world)) = 640 \<and>
   screen_height (final_world (create_desktop example_environment '''' open_world)) = 480"
proof -
  have a: "XParseGeometry example_environment ''800x600+10+20'' =
      \<lparr>geo_flags = 15, geo_x = 10, geo_y = 20, geo_width = 800, geo_height = 600\<rparr>"
    and b: "XParseGeometry example_environment '''' =
      \<lparr>geo_flags = 0, geo_x = 0, geo_y = 0, geo_width = 0, geo_height = 0\<rparr>"
    by (simp_all add: example_environment_def example_parse_def x11_constants)
  show ?thesis
    using desktop_geometry_defaults [OF example_desktops(1)] desktop_geometry_defaults [OF example_desktops(2)]
    by (simp add: a b x11_constants) metis
qed

subsection \<open>C6: a desktop switches managed mode off\<close>



subsection \<open>C7: the screen-saver timeout\<close>

text \<open>
  C7, as the code has it. \<open>X11DRV_SetScreenSaveTimeout\<close> makes one call of
  \<open>XSetScreenSaver\<close>, with the smaller of \<open>nTimeout\<close> and 32767 as the timeout: the value
  sent is never above 32767, and it is negative exactly when \<open>nTimeout\<close> is.
\<close>

theorem timeout_capped_above:
  "\<exists>t. events_since w (X11DRV_SetScreenSaveTimeout n w) =
          [Set_screen_saver t 60 DefaultBlanking DefaultExposures] \<and>
        sint t = min (sint n) 32767 \<and> sint t \<le> 32767 \<and> (sint t < 0) = (sint n < 0)"
  by (auto simp: X11DRV_SetScreenSaveTimeout_def Let_def word_sless_alt)

theorem timeout_capped_above_witness:
  "\<exists>t. events_since example_world (X11DRV_SetScreenSaveTimeout 40000 example_world) =
          [Set_screen_saver t 60 DefaultBlanking DefaultExposures] \<and> sint t = 32767"
  using timeout_capped_above [of example_world 40000] by auto

text \<open>
  C7 as stated, that the value sent is never negative, does not hold: the code compares
  with the upper bound only, and a timeout of -1 is sent as -1.
\<close>

theorem negative_timeout_is_passed_on:
  "events_since example_world (X11DRV_SetScreenSaveTimeout (- 1) example_world) =
     [Set_screen_saver (- 1) 60 DefaultBlanking DefaultExposures] \<and> sint (- 1 :: dword) < 0"
  by (simp add: X11DRV_SetScreenSaveTimeout_def Let_def word_sless_alt)

subsection \<open>C8: the hint structures\<close>

text \<open>
  C8, as the code has it. Once \<open>create_desktop\<close> has its display and visual: when one
  of the three allocations of hint structures fails, it leaves the process with status
  1, its last call is the message \<open>Not enough memory for window manager hints\<close>, and it
  has freed nothing; when all three succeed, it returns, and its last calls are the
  setting of the window-manager properties and protocols, the freeing of the three
  structures and the mapping of the window, with nothing freed before.
\<close>

theorem hint_allocation_failure_exits:
  assumes "display w = Some d" and "desktop_visual e d w = Chosen vi w1"
  shows "(XAllocSizeHints e = None \<or> XAllocWMHints e = None \<or> XAllocClassHint e = None \<longrightarrow>
            (\<exists>w'. create_desktop e geom w = ExitProcess 1 w' \<and>
               last (events_since w w') = not_enough_memory \<and>
               filter is_Free (events_since w w') = [])) \<and>
         (\<forall>p1 p2 p3. XAllocSizeHints e = Some p1 \<and> XAllocWMHints e = Some p2 \<and>
              XAllocClassHint e = Some p3 \<longrightarrow>
            (\<exists>w' evs. create_desktop e geom w = Done w' \<and>
               events_since w w' = evs @ property_events e geom p1 p2 p3 \<and>
               filter is_Free evs = []))"
proof -
  obtain evs0 where v: "trace w1 = trace w @ evs0" "filter is_Free evs0 = []"
    using desktop_visual_events [OF assms(2)] by blast
  have "\<exists>w'. create_desktop e geom w = ExitProcess 1 w' \<and>
               last (events_since w w') = not_enough_memory \<and>
               filter is_Free (events_since w w') = []"
    if "XAllocSizeHints e = None \<or> XAllocWMHints e = None \<or> XAllocClassHint e = None"
  proof -
    from create_desktop_starved [OF assms that, of geom] obtain w' where
      x: "create_desktop e geom w = ExitProcess 1 w'"
      and t: "trace w' = trace w1 @ creation_events e d geom vi @ [not_enough_memory]" by blast
    have "events_since w w' = evs0 @ creation_events e d geom vi @ [not_enough_memory]"
      using v t by simp
    then show ?thesis using x v(2)
      by (simp add: creation_events_kinds) (simp add: not_enough_memory_def is_Free_def)
  qed
  moreover have "\<exists>w' evs. create_desktop e geom w = Done w' \<and>
               events_since w w' = evs @ property_events e geom p1 p2 p3 \<and>
               filter is_Free evs = []"
    if "XAllocSizeHints e = Some p1" "XAllocWMHints e = Some p2" "XAllocClassHint e = Some p3"
    for p1 p2 p3
  proof -
    from create_desktop_served [OF assms that, of geom] obtain w' where
      x: "create_desktop e geom w = Done w'"
      and t: "trace w' = trace w1 @ creation_events e d geom vi @ property_events e geom p1 p2 p3"
      by blast
    have "events_since w w' = (evs0 @ creation_events e d geom vi) @ property_events e geom p1 p2 p3"
      using v t by simp
    moreover have "filter is_Free (evs0 @ creation_events e d geom vi) = []"
      using v(2) by (simp add: creation_events_kinds)
    ultimately show ?thesis using x by blast
  qed
  ultimately show ?thesis by blast
qed

theorem hint_allocation_failure_exits_witness:
  "(\<exists>w'. create_desktop starved_environment ''800x600+10+20'' open_world = ExitProcess 1 w' \<and>
      last (events_since open_world w') = not_enough_memory \<and>
      filter is_Free (events_since open_world w') = []) \<and>
   (\<exists>w' evs. create_desktop example_environment ''800x600+10+20'' open_world = Done w' \<and>
      events_since open_world w' =
        evs @ property_events example_environment ''800x600+10+20'' 1000 2000 3000 \<and>
      filter is_Free evs = [])"
  using hint_allocation_failure_exits [OF open_world_visual(1,3), of "''800x600+10+20''"]
    hint_allocation_failure_exits [OF open_world_visual(1,2), of "''800x600+10+20''"]
  by (simp add: starved_environment_def example_environment_def)

text \<open>
  C8 as stated, that the structures already allocated are released before the process
  ends, does not hold: when the size hints are allocated and the allocation of the WM
  hints fails, the process ends with the size hints never freed.
\<close>

theorem hints_not_released_before_exit:
  "XAllocSizeHints starved_environment = Some 1000 \<and>
   create_desktop starved_environment ''800x600+10+20'' open_world =
     ExitProcess 1 (final_world (create_desktop starved_environment ''800x600+10+20'' open_world)) \<and>
   Alloc_size_hints (Some 1000) \<in>
     set (trace (final_world (create_desktop starved_environment ''800x600+10+20'' open_world))) \<and>
   Free 1000 \<notin>
     set (trace (final_world (create_desktop starved_environment ''800x600+10+20'' open_world)))"
proof -
  have a: "XAllocSizeHints starved_environment = Some 1000"
    "XAllocWMHints starved_environment = None"
    by (simp_all add: starved_environment_def example_environment_def)
  from create_desktop_starved [OF open_world_visual(1,3), of "''800x600+10+20''"] a(2)
  obtain w' where x: "create_desktop starved_environment ''800x600+10+20'' open_world = ExitProcess 1 w'"
    and t: "trace w' = trace open_world @
      creation_events starved_environment example_display ''800x600+10+20'' None @ [not_enough_memory]"
    by blast
  have "trace open_world = []" by (simp add: open_world_def example_world_def)
  with t a(1) show ?thesis
    by (simp add: x creation_events_def not_enough_memory_def)
qed

subsection \<open>C9: the keyboard settings\<close>

text \<open>
  C9. A \<open>process_attach\<close> that returns has saved the keyboard settings of the server in
  \<open>keyboard_state\<close>. After any sequence of changes of the settings in the server, the
  first call of \<open>process_detach\<close> is \<open>XChangeKeyboardControl\<close> with the value mask \<open>0x8F\<close>:
  bits 0, 1, 2, 3 and 7 are set and no other, which in the protocol select the key-click
  percent, the bell percent, the bell pitch, the bell duration and the auto-repeat mode.
  Each of these five values is the one that was saved.
\<close>

theorem detach_restores_keyboard_snapshot:
  assumes "process_attach e w = Done w1"
  shows "keyboard_state w1 = server_keyboard w \<and>
         (0x8F :: dword) =
           KBKeyClickPercent OR KBBellPercent OR KBBellPitch OR KBBellDuration OR KBAutoRepeatMode \<and>
         events_since (fold change_keyboard fs w1) (process_detach e (fold change_keyboard fs w1)) =
           Change_keyboard_control 0x8F
             \<lparr>kc_key_click_percent = ks_key_click_percent (server_keyboard w),
              kc_bell_percent = ks_bell_percent (server_keyboard w),
              kc_bell_pitch = ks_bell_pitch (server_keyboard w),
              kc_bell_duration = ks_bell_duration (server_keyboard w),
              kc_auto_repeat_mode = ks_global_auto_repeat (server_keyboard w)\<rparr> #
           (if HAVE_LIBXXF86VM e then [XF86VM_Cleanup] else []) @ [GDI_Finalize]"
  using process_attach_keyboard [OF assms]
  by (simp add: events_since_def process_detach_trace keyboard_value_def keyboard_mask_value)
    (simp add: x11_constants)

theorem detach_restores_keyboard_snapshot_witness:
  "events_since
     (fold change_keyboard [\<lambda>k. k\<lparr>ks_bell_percent := 0\<rparr>, \<lambda>k. k\<lparr>ks_key_click_percent := 99\<rparr>] attached_world)
     (process_detach example_environment
       (fold change_keyboard [\<lambda>k. k\<lparr>ks_bell_percent := 0\<rparr>, \<lambda>k. k\<lparr>ks_key_click_percent := 99\<rparr>] attached_world)) =
     [Change_keyboard_control 0x8F
        \<lparr>kc_key_click_percent = 50, kc_bell_percent = 40, kc_bell_pitch = 400,
         kc_bell_duration = 100, kc_auto_repeat_mode = 1\<rparr>,
      XF86VM_Cleanup, GDI_Finalize]"
  using detach_restores_keyboard_snapshot [OF example_attach,
      of "[\<lambda>k. k\<lparr>ks_bell_percent := 0\<rparr>, \<lambda>k. k\<lparr>ks_key_click_percent := 99\<rparr>]"]
  by (simp add: example_environment_def example_world_def example_keyboard_def)

subsection \<open>C10: whether the screen saver is active\<close>

text \<open>
  C10. \<open>X11DRV_GetScreenSaveActive\<close> returns true exactly when the timeout the server
  reports is not 0; this is so after any sequence of calls of
  \<open>X11DRV_SetScreenSaveActive\<close> too, and these calls leave the reported parameters as they
  were.
\<close>

theorem screen_saver_active_iff_timeout:
  "fst (X11DRV_GetScreenSaveActive w) = (ss_timeout (server_saver w) \<noteq> 0) \<and>
   fst (X11DRV_GetScreenSaveActive (fold X11DRV_SetScreenSaveActive bs w)) =
     (ss_timeout (server_saver (fold X11DRV_SetScreenSaveActive bs w)) \<noteq> 0) \<and>
   server_saver (fold X11DRV_SetScreenSaveActive bs w) = server_saver w"
  by (simp add: X11DRV_GetScreenSaveActive_def fold_SetScreenSaveActive_saver)

theorem screen_saver_active_iff_timeout_witness:
  "ss_timeout (server_saver idle_world) = 0 \<and>
   \<not> fst (X11DRV_GetScreenSaveActive (fold X11DRV_SetScreenSaveActive [True, False, True] idle_world)) \<and>
   fst (X11DRV_GetScreenSaveActive (fold X11DRV_SetScreenSaveActive [True, False, True] example_world))"
  using screen_saver_active_iff_timeout [of idle_world "[True, False, True]"] screen_saver_active_iff_timeout [of example_world "[True, False, True]"]
  by (simp add: idle_world_def example_world_def)

end
